theory Spec2Isabelle
  imports Complex_Main "HOL-Library.AList" "HOL-Library.Multiset"
    "HOL-Library.List_Lexorder" "HOL-Library.Char_ord"
begin

section \<open>Strings and numbers as the TypeScript code uses them\<close>

text \<open>
  Strings are character lists. The helpers below are the JavaScript string operations the
  modelled code calls: \<open>||\<close> on a string (the empty string is falsy),
  \<open>Array.prototype.join\<close>, \<open>startsWith\<close>, \<open>endsWith\<close>, \<open>includes\<close>,
  \<open>toLowerCase\<close> (on ASCII letters; other bytes are left as they are) and the decimal
  rendering of a non-negative integer inside a template literal.
\<close>

definition orElse :: "string \<Rightarrow> string \<Rightarrow> string" where
  "orElse v d = (if v = [] then d else v)"

fun join :: "string \<Rightarrow> string list \<Rightarrow> string" where
  "join sep [] = []"
| "join sep [x] = x"
| "join sep (x # y # ys) = x @ sep @ join sep (y # ys)"

definition startsWith :: "string \<Rightarrow> string \<Rightarrow> bool" where
  "startsWith s p = (take (length p) s = p)"

definition endsWith :: "string \<Rightarrow> string \<Rightarrow> bool" where
  "endsWith s p = (length p \<le> length s \<and> drop (length s - length p) s = p)"

fun includes_str :: "string \<Rightarrow> string \<Rightarrow> bool" where
  "includes_str [] p = (p = [])"
| "includes_str (c # cs) p = (startsWith (c # cs) p \<or> includes_str cs p)"

definition lowerChar :: "char \<Rightarrow> char" where
  "lowerChar c =
     (case map_of (zip ''ABCDEFGHIJKLMNOPQRSTUVWXYZ'' ''abcdefghijklmnopqrstuvwxyz'') c of
        None \<Rightarrow> c
      | Some l \<Rightarrow> l)"

definition toLowerCase :: "string \<Rightarrow> string" where
  "toLowerCase s = map lowerChar s"

definition digitChar :: "nat \<Rightarrow> char" where
  "digitChar d = ''0123456789'' ! (d mod 10)"

fun toString_nat :: "nat \<Rightarrow> string" where
  "toString_nat n =
     (if n < 10 then [digitChar n] else toString_nat (n div 10) @ [digitChar (n mod 10)])"

declare toString_nat.simps [simp del]

section \<open>Data model\<close>

subsection \<open>Context records (context.ts)\<close>

record CodePattern =
  cp_id :: string
  cp_name :: string
  cp_description :: string
  cp_example :: string
  cp_frequency :: nat
  cp_files :: "string list"
  cp_lastSeen :: string

record ArchitecturalDecision =
  ad_id :: string
  ad_title :: string
  ad_decision :: string
  ad_rationale :: string
  ad_consequences :: "string list"
  ad_date :: string
  ad_files :: "string list"

record CommonPitfall =
  pf_id :: string
  pf_pattern :: string
  pf_description :: string
  pf_solution :: string
  pf_frequency :: nat
  pf_examples :: "string list"

record CompressedContext =
  patterns :: "CodePattern list"
  decisions :: "ArchitecturalDecision list"
  pitfalls :: "CommonPitfall list"
  summary :: string
  lastUpdated :: string
  codebaseFingerprint :: string

subsection \<open>Prompt records (prompts.ts)\<close>

datatype category = Feature | Bugfix | Refactor | Test | Docs

datatype outcome = Success | Failure | Partial

record PromptTemplate =
  pt_id :: string
  pt_name :: string
  pt_category :: category
  pt_template :: string
  pt_variables :: "string list"
  pt_successRate :: rat
  pt_usageCount :: nat
  pt_lastUsed :: string
  pt_aiModel :: "string option"

record VersionMetadata =
  createdAt :: string
  usedFor :: string
  vm_outcome :: outcome
  feedback :: string

record PromptVersion =
  pv_id :: string
  pv_templateId :: string
  pv_version :: string
  pv_content :: string
  pv_metadata :: VersionMetadata

record PromptPerformance =
  pp_templateId :: string
  totalUses :: nat
  successCount :: nat
  failureCount :: nat
  averageRating :: rat
  commonIssues :: "string list"
  lastAnalyzed :: string

subsection \<open>Ticket (types/index.ts)\<close>

record TestPlan =
  unit_tests :: "string list"
  e2e :: "string list"

record Telemetry =
  events :: "string list"
  alerts :: "string list"

record Ticket =
  ticket_id :: string
  title :: string
  outcome_text :: string
  scope_in :: "string list"
  scope_out :: "string list"
  acceptance_criteria :: "string list"
  apidiff :: "string list option"
  dbdiff :: "string list option"
  ui_components :: "string list option"
  telemetry :: Telemetry
  test_plan :: TestPlan
  timebox_hours :: nat
  owner :: string

subsection \<open>The persisted state under the .sherpa directory\<close>

text \<open>
  A JSON file is represented by the value it parses to (\<open>Stored\<close>), or by its raw text
  when it does not parse (\<open>Malformed\<close>); \<open>writeJson\<close> stores a \<open>Stored\<close> value and
  \<open>readJson\<close> raises on a \<open>Malformed\<close> one. A directory that is listed by the code
  (\<open>templates\<close>) is an association list from file name to content in listing order; a
  new file is listed last. A directory that may be absent is an option. The performance
  file holds one JSON object keyed by template id, in insertion order.
\<close>

datatype 'a stored = Stored 'a | Malformed string

datatype error = Error string | SyntaxError string | ENOENT string

record store =
  compressedFile :: "CompressedContext stored option"
  templatesDir :: "(string \<times> PromptTemplate stored) list option"
  versionsDir :: "(string \<rightharpoonup> PromptVersion stored) option"
  performanceFile :: "(string \<times> PromptPerformance) list stored option"
  standardsDir :: "string \<rightharpoonup> string"

text \<open>One reading of the system clock: \<open>Date.now()\<close> and \<open>new Date().toISOString()\<close>.\<close>

record clock =
  nowMs :: nat
  nowIso :: string

section \<open>PromptManager (prompts.ts)\<close>

subsection \<open>Seed templates: \<open>getDefaultTemplates\<close>\<close>

definition featureImplementationBody :: string where
  "featureImplementationBody =
     ''# Feature Implementation Task\<newline>'' @
     ''\<newline>'' @
     ''## Context\<newline>'' @
     ''{{CONTEXT_SUMMARY}}\<newline>'' @
     ''\<newline>'' @
     ''## Development Standards\<newline>'' @
     ''{{DEVELOPMENT_STANDARDS}}\<newline>'' @
     ''\<newline>'' @
     ''## Tech Stack\<newline>'' @
     ''{{TECH_STACK}}\<newline>'' @
     ''\<newline>'' @
     ''## Testing Standards\<newline>'' @
     ''{{TESTING_STANDARDS}}\<newline>'' @
     ''\<newline>'' @
     ''## Patterns to Follow\<newline>'' @
     ''{{CODE_PATTERNS}}\<newline>'' @
     ''\<newline>'' @
     ''## Architectural Constraints\<newline>'' @
     ''{{ARCHITECTURAL_DECISIONS}}\<newline>'' @
     ''\<newline>'' @
     ''## Task Requirements\<newline>'' @
     ''**Feature**: {{FEATURE_NAME}}\<newline>'' @
     ''**Outcome**: {{EXPECTED_OUTCOME}}\<newline>'' @
     ''\<newline>'' @
     ''**Acceptance Criteria**:\<newline>'' @
     ''{{ACCEPTANCE_CRITERIA}}\<newline>'' @
     ''\<newline>'' @
     ''**API Changes**:\<newline>'' @
     ''{{API_DIFF}}\<newline>'' @
     ''\<newline>'' @
     ''**UI Components**:\<newline>'' @
     ''{{UI_COMPONENTS}}\<newline>'' @
     ''\<newline>'' @
     ''## Test Requirements\<newline>'' @
     ''{{TEST_PLAN}}\<newline>'' @
     ''\<newline>'' @
     ''## Important Reminders\<newline>'' @
     ''- Follow the development standards and tech stack specified above\<newline>'' @
     ''- Use only the technologies listed in the tech stack\<newline>'' @
     ''- Follow established code patterns shown above\<newline>'' @
     ''- Include comprehensive error handling (common AI oversight)\<newline>'' @
     ''- Add proper TypeScript types for all new code\<newline>'' @
     ''- Write tests that match the acceptance criteria\<newline>'' @
     ''- Avoid over-abstraction - keep it concrete initially\<newline>'' @
     ''\<newline>'' @
     ''## Files to Reference\<newline>'' @
     ''{{RELEVANT_FILES}}\<newline>'' @
     ''\<newline>'' @
     ''## Common Pitfalls to Avoid\<newline>'' @
     ''{{PITFALLS}}\<newline>'' @
     ''\<newline>'' @
     ''## AI-Specific Guidelines\<newline>'' @
     ''- Don't introduce new dependencies without checking the tech stack first\<newline>'' @
     ''- Follow the exact naming conventions specified in standards\<newline>'' @
     ''- Implement error handling patterns consistently\<newline>'' @
     ''- Write tests alongside implementation, not as an afterthought''"

definition bugFixBody :: string where
  "bugFixBody =
     ''# Bug Fix Task\<newline>'' @
     ''\<newline>'' @
     ''## Context\<newline>'' @
     ''{{CONTEXT_SUMMARY}}\<newline>'' @
     ''\<newline>'' @
     ''## Current Patterns\<newline>'' @
     ''{{CODE_PATTERNS}}\<newline>'' @
     ''\<newline>'' @
     ''## Bug Report\<newline>'' @
     ''**Issue**: {{BUG_DESCRIPTION}}\<newline>'' @
     ''**Expected**: {{EXPECTED_BEHAVIOR}}\<newline>'' @
     ''**Actual**: {{ACTUAL_BEHAVIOR}}\<newline>'' @
     ''**Steps to Reproduce**: {{REPRODUCTION_STEPS}}\<newline>'' @
     ''\<newline>'' @
     ''## Files Involved\<newline>'' @
     ''{{RELEVANT_FILES}}\<newline>'' @
     ''\<newline>'' @
     ''## Fix Requirements\<newline>'' @
     ''- Maintain existing patterns and architecture\<newline>'' @
     ''- Add tests to prevent regression\<newline>'' @
     ''- Update documentation if necessary\<newline>'' @
     ''- Consider edge cases that might have similar issues\<newline>'' @
     ''\<newline>'' @
     ''## Test Strategy\<newline>'' @
     ''{{TEST_PLAN}}\<newline>'' @
     ''\<newline>'' @
     ''## Avoid These Common Mistakes\<newline>'' @
     ''{{PITFALLS}}''"

definition refactorBody :: string where
  "refactorBody =
     ''# Refactoring Task\<newline>'' @
     ''\<newline>'' @
     ''## Context\<newline>'' @
     ''{{CONTEXT_SUMMARY}}\<newline>'' @
     ''\<newline>'' @
     ''## Current Patterns\<newline>'' @
     ''{{CODE_PATTERNS}}\<newline>'' @
     ''\<newline>'' @
     ''## Refactoring Goal\<newline>'' @
     ''**Target**: {{REFACTOR_TARGET}}\<newline>'' @
     ''**Reason**: {{REFACTOR_REASON}}\<newline>'' @
     ''**Success Criteria**: {{SUCCESS_CRITERIA}}\<newline>'' @
     ''\<newline>'' @
     ''## Constraints\<newline>'' @
     ''- Must maintain existing functionality (no behavior changes)\<newline>'' @
     ''- Keep existing tests passing\<newline>'' @
     ''- Follow established patterns\<newline>'' @
     ''- Improve code quality metrics\<newline>'' @
     ''\<newline>'' @
     ''## Architectural Decisions to Respect\<newline>'' @
     ''{{ARCHITECTURAL_DECISIONS}}\<newline>'' @
     ''\<newline>'' @
     ''## Files to Modify\<newline>'' @
     ''{{RELEVANT_FILES}}\<newline>'' @
     ''\<newline>'' @
     ''## Testing Strategy\<newline>'' @
     ''- All existing tests must pass\<newline>'' @
     ''- Add tests for new internal structure if needed\<newline>'' @
     ''- Consider integration test coverage\<newline>'' @
     ''\<newline>'' @
     ''## Common Refactoring Pitfalls\<newline>'' @
     ''{{PITFALLS}}''"

definition getDefaultTemplates :: "PromptTemplate list" where
  "getDefaultTemplates =
     [\<lparr>pt_id = ''feature-implementation'', pt_name = ''Feature Implementation'',
       pt_category = Feature, pt_template = featureImplementationBody,
       pt_variables =
         [''CONTEXT_SUMMARY'', ''DEVELOPMENT_STANDARDS'', ''TECH_STACK'',
          ''TESTING_STANDARDS'', ''CODE_PATTERNS'', ''ARCHITECTURAL_DECISIONS'',
          ''FEATURE_NAME'', ''EXPECTED_OUTCOME'', ''ACCEPTANCE_CRITERIA'', ''API_DIFF'',
          ''UI_COMPONENTS'', ''TEST_PLAN'', ''RELEVANT_FILES'', ''PITFALLS''],
       pt_successRate = 0, pt_usageCount = 0, pt_lastUsed = [], pt_aiModel = Some ''any''\<rparr>,
      \<lparr>pt_id = ''bug-fix'', pt_name = ''Bug Fix'',
       pt_category = Bugfix, pt_template = bugFixBody,
       pt_variables =
         [''CONTEXT_SUMMARY'', ''CODE_PATTERNS'', ''BUG_DESCRIPTION'',
          ''EXPECTED_BEHAVIOR'', ''ACTUAL_BEHAVIOR'', ''REPRODUCTION_STEPS'',
          ''RELEVANT_FILES'', ''TEST_PLAN'', ''PITFALLS''],
       pt_successRate = 0, pt_usageCount = 0, pt_lastUsed = [], pt_aiModel = Some ''any''\<rparr>,
      \<lparr>pt_id = ''refactor'', pt_name = ''Code Refactoring'',
       pt_category = Refactor, pt_template = refactorBody,
       pt_variables =
         [''CONTEXT_SUMMARY'', ''CODE_PATTERNS'', ''REFACTOR_TARGET'', ''REFACTOR_REASON'',
          ''SUCCESS_CRITERIA'', ''ARCHITECTURAL_DECISIONS'', ''RELEVANT_FILES'',
          ''PITFALLS''],
       pt_successRate = 0, pt_usageCount = 0, pt_lastUsed = [], pt_aiModel = Some ''any''\<rparr>]"

subsection \<open>\<open>initializePrompts\<close>\<close>

text \<open>
  \<open>fileExists\<close> on a path inside a listed directory, and \<open>writeJson\<close> to such a path:
  an existing file is replaced in place, a new one is listed last.
\<close>

definition fileExists :: "(string \<times> 'a) list \<Rightarrow> string \<Rightarrow> bool" where
  "fileExists dir file = (map_of dir file \<noteq> None)"

definition writeJson :: "string \<Rightarrow> 'a \<Rightarrow> (string \<times> 'a stored) list \<Rightarrow> (string \<times> 'a stored) list" where
  "writeJson file v dir = AList.update file (Stored v) dir"

text \<open>The body of the loop over the seed templates.\<close>

definition seedTemplate ::
  "(string \<times> PromptTemplate stored) list \<Rightarrow> PromptTemplate \<Rightarrow> (string \<times> PromptTemplate stored) list"
where
  "seedTemplate dir t =
     (let templatePath = pt_id t @ ''.json''
      in if \<not> fileExists dir templatePath then writeJson templatePath t dir else dir)"

definition initializePrompts :: "store \<Rightarrow> store" where
  "initializePrompts st =
     (let tdir = (case templatesDir st of None \<Rightarrow> [] | Some d \<Rightarrow> d);
          vdir = (case versionsDir st of None \<Rightarrow> Map.empty | Some v \<Rightarrow> v)
      in st\<lparr>templatesDir := Some (foldl seedTemplate tdir getDefaultTemplates),
            versionsDir := Some vdir\<rparr>)"

subsection \<open>Reading the template directory and choosing a template\<close>

fun readTemplates :: "(string \<times> PromptTemplate stored) list \<Rightarrow> error + PromptTemplate list" where
  "readTemplates [] = Inr []"
| "readTemplates ((file, content) # rest) =
     (if endsWith file ''.json'' then
        (case content of
           Malformed s \<Rightarrow> Inl (SyntaxError s)
         | Stored t \<Rightarrow>
             (case readTemplates rest of Inl e \<Rightarrow> Inl e | Inr ts \<Rightarrow> Inr (t # ts)))
      else readTemplates rest)"

definition getTemplates :: "store \<Rightarrow> error + PromptTemplate list" where
  "getTemplates st =
     (case templatesDir st of
        None \<Rightarrow> Inl (ENOENT ''templates'')
      | Some dir \<Rightarrow> readTemplates dir)"

text \<open>
  \<open>selectBestTemplate\<close>: the title is lower-cased before its three tests, the outcome is
  tested as it is. A category test that holds but finds no template falls through to the
  next test. The \<open>spec\<close> argument of the source is never read and is left out.
\<close>

definition selectBestTemplate :: "store \<Rightarrow> Ticket \<Rightarrow> error + PromptTemplate" where
  "selectBestTemplate st ticket =
     (case getTemplates st of
        Inl e \<Rightarrow> Inl e
      | Inr templates \<Rightarrow>
          (case (if includes_str (toLowerCase (title ticket)) ''fix''
                    \<or> includes_str (toLowerCase (title ticket)) ''bug''
                 then find (\<lambda>t. pt_category t = Bugfix) templates else None) of
             Some template \<Rightarrow> Inr template
           | None \<Rightarrow>
               (case (if includes_str (toLowerCase (title ticket)) ''refactor''
                         \<or> includes_str (outcome_text ticket) ''improve''
                      then find (\<lambda>t. pt_category t = Refactor) templates else None) of
                  Some template \<Rightarrow> Inr template
                | None \<Rightarrow>
                    (case find (\<lambda>t. pt_category t = Feature) templates of
                       Some featureTemplate \<Rightarrow> Inr featureTemplate
                     | None \<Rightarrow> Inl (Error ''No prompt template found'')))))"

section \<open>ContextManager: reading the snapshot (context.ts)\<close>

definition getCompressedContext :: "store \<Rightarrow> error + CompressedContext option" where
  "getCompressedContext st =
     (case compressedFile st of
        None \<Rightarrow> Inr None
      | Some (Malformed s) \<Rightarrow> Inl (SyntaxError s)
      | Some (Stored context) \<Rightarrow> Inr (Some context))"

text \<open>
  Fuse.js is a library outside the repository. Its \<open>search\<close> is a parameter of the model:
  given the keys, the threshold, the collection and the query it returns the items it
  accepts, in rank order.
\<close>

record fuse =
  searchPatterns ::
    "(CodePattern \<Rightarrow> string) list \<Rightarrow> rat \<Rightarrow> CodePattern list \<Rightarrow> string \<Rightarrow> CodePattern list"
  searchDecisions ::
    "(ArchitecturalDecision \<Rightarrow> string) list \<Rightarrow> rat \<Rightarrow> ArchitecturalDecision list \<Rightarrow> string
       \<Rightarrow> ArchitecturalDecision list"

record RelevantContext =
  rc_patterns :: "CodePattern list"
  rc_decisions :: "ArchitecturalDecision list"

definition searchSimilarContext :: "fuse \<Rightarrow> store \<Rightarrow> string \<Rightarrow> error + RelevantContext" where
  "searchSimilarContext fz st query =
     (case getCompressedContext st of
        Inl e \<Rightarrow> Inl e
      | Inr None \<Rightarrow> Inr \<lparr>rc_patterns = [], rc_decisions = []\<rparr>
      | Inr (Some context) \<Rightarrow>
          Inr \<lparr>rc_patterns =
                 searchPatterns fz [cp_name, cp_description] (6 / 10) (patterns context) query,
               rc_decisions =
                 searchDecisions fz [ad_title, ad_decision, ad_rationale] (6 / 10)
                   (decisions context) query\<rparr>)"

section \<open>PromptManager: compiling a prompt\<close>

subsection \<open>\<open>String.prototype.replace\<close> with a global pattern \<open>{{VARIABLE}}\<close>\<close>

text \<open>
  The replacement string of \<open>replace\<close> is a template: \<open>$$\<close> stands for a dollar sign,
  \<open>$&\<close> for the matched text, \<open>$`\<close> for the text before the match and \<open>$'\<close> for the
  text after it. The pattern has no capture group, so \<open>$1\<close> and the like stay as they are.
\<close>

fun getSubstitution :: "string \<Rightarrow> string \<Rightarrow> string \<Rightarrow> string \<Rightarrow> string" where
  "getSubstitution matched before after [] = []"
| "getSubstitution matched before after [c] = [c]"
| "getSubstitution matched before after (c # d # r) =
     (if c = CHR ''$'' then
        (if d = CHR ''$'' then CHR ''$'' # getSubstitution matched before after r
         else if d = CHR ''&'' then matched @ getSubstitution matched before after r
         else if d = CHR ''`'' then before @ getSubstitution matched before after r
         else if d = CHR 0x27 then after @ getSubstitution matched before after r
         else c # getSubstitution matched before after (d # r))
      else c # getSubstitution matched before after (d # r))"

text \<open>
  \<open>content.replace(new RegExp(`{{${variable}}}`, 'g'), value)\<close>. The variable names of
  the table below are letters and underscores, so the pattern matches the text
  \<open>{{VARIABLE}}\<close> literally; matches are found left to right and do not overlap.
  \<open>before\<close> is the part of the input already scanned.
\<close>

fun replaceAll :: "string \<Rightarrow> string \<Rightarrow> string \<Rightarrow> string \<Rightarrow> string" where
  "replaceAll variable value before [] = []"
| "replaceAll variable value before (c # cs) =
     (if startsWith (c # cs) (''{{'' @ variable @ ''}}'') then
        getSubstitution (''{{'' @ variable @ ''}}'') before (drop (length variable + 3) cs) value
          @ replaceAll variable value (before @ ''{{'' @ variable @ ''}}'')
              (drop (length variable + 3) cs)
      else c # replaceAll variable value (before @ [c]) cs)"

subsection \<open>Formatting the values\<close>

definition formatPatterns :: "CodePattern list \<Rightarrow> string" where
  "formatPatterns ps =
     join ''\<newline>\<newline>''
       (map (\<lambda>pattern.
               ''### '' @ cp_name pattern @ ''\<newline>- Used '' @ toString_nat (cp_frequency pattern)
                 @ ''x across '' @ toString_nat (length (cp_files pattern)) @ '' files\<newline>- ''
                 @ cp_description pattern @ ''\<newline>- Example: `'' @ cp_example pattern @ ''`'')
            (take 5 ps))"

definition formatDecisions :: "ArchitecturalDecision list \<Rightarrow> string" where
  "formatDecisions ds =
     join ''\<newline>\<newline>''
       (map (\<lambda>decision.
               ''### '' @ ad_title decision @ ''\<newline>- **Decision**: '' @ ad_decision decision
                 @ ''\<newline>- **Rationale**: '' @ ad_rationale decision)
            ds)"

definition formatTestPlan :: "TestPlan \<Rightarrow> string" where
  "formatTestPlan testPlan =
     join ''\<newline>'' (map (\<lambda>t. ''- **Unit**: '' @ t) (unit_tests testPlan)) @ ''\<newline>''
       @ join ''\<newline>'' (map (\<lambda>t. ''- **E2E**: '' @ t) (e2e testPlan))"

text \<open>\<open>filter((file, index, arr) => arr.indexOf(file) === index)\<close> keeps first occurrences.\<close>

fun keepFirst :: "string list \<Rightarrow> string list \<Rightarrow> string list" where
  "keepFirst seen [] = []"
| "keepFirst seen (x # xs) =
     (if x \<in> set seen then keepFirst seen xs else x # keepFirst (x # seen) xs)"

definition getRelevantFiles :: "CodePattern list \<Rightarrow> string" where
  "getRelevantFiles ps =
     join ''\<newline>'' (map (\<lambda>file. ''- '' @ file) (take 10 (keepFirst [] (concat (map cp_files ps)))))"

definition formatPitfalls :: "CommonPitfall list \<Rightarrow> string" where
  "formatPitfalls ps =
     join ''\<newline>\<newline>''
       (map (\<lambda>pitfall.
               ''### '' @ pf_pattern pitfall @ ''\<newline>- **Problem**: '' @ pf_description pitfall
                 @ ''\<newline>- **Solution**: '' @ pf_solution pitfall)
            ps)"

subsection \<open>\<open>fillTemplate\<close>\<close>

record Standards =
  coding :: string
  testing :: string
  techstack :: string

record FillData =
  fd_ticket :: Ticket
  fd_context :: CompressedContext
  fd_relevantContext :: RelevantContext
  fd_standards :: "Standards option"

definition optList :: "string list option \<Rightarrow> string" where
  "optList xs =
     (case xs of
        None \<Rightarrow> ''None specified''
      | Some l \<Rightarrow> orElse (join ''\<newline>'' (map (\<lambda>x. ''- '' @ x) l)) ''None specified'')"

definition replacements :: "FillData \<Rightarrow> (string \<times> string) list" where
  "replacements data =
     [(''CONTEXT_SUMMARY'', summary (fd_context data)),
      (''CODE_PATTERNS'', formatPatterns (rc_patterns (fd_relevantContext data))),
      (''ARCHITECTURAL_DECISIONS'', formatDecisions (rc_decisions (fd_relevantContext data))),
      (''DEVELOPMENT_STANDARDS'',
         orElse (case fd_standards data of None \<Rightarrow> [] | Some s \<Rightarrow> coding s)
           ''No coding standards found''),
      (''TESTING_STANDARDS'',
         orElse (case fd_standards data of None \<Rightarrow> [] | Some s \<Rightarrow> testing s)
           ''No testing standards found''),
      (''TECH_STACK'',
         orElse (case fd_standards data of None \<Rightarrow> [] | Some s \<Rightarrow> techstack s)
           ''No tech stack documented''),
      (''FEATURE_NAME'', title (fd_ticket data)),
      (''EXPECTED_OUTCOME'', outcome_text (fd_ticket data)),
      (''ACCEPTANCE_CRITERIA'',
         join ''\<newline>'' (map (\<lambda>ac. ''- '' @ ac) (acceptance_criteria (fd_ticket data)))),
      (''API_DIFF'', optList (apidiff (fd_ticket data))),
      (''UI_COMPONENTS'', optList (ui_components (fd_ticket data))),
      (''TEST_PLAN'', formatTestPlan (test_plan (fd_ticket data))),
      (''RELEVANT_FILES'', getRelevantFiles (rc_patterns (fd_relevantContext data))),
      (''PITFALLS'', formatPitfalls (pitfalls (fd_context data))),
      (''BUG_DESCRIPTION'', outcome_text (fd_ticket data)),
      (''EXPECTED_BEHAVIOR'', ''As described in acceptance criteria''),
      (''ACTUAL_BEHAVIOR'', ''Current behavior differs from expected''),
      (''REPRODUCTION_STEPS'', ''Steps to reproduce the issue''),
      (''REFACTOR_TARGET'', title (fd_ticket data)),
      (''REFACTOR_REASON'', outcome_text (fd_ticket data)),
      (''SUCCESS_CRITERIA'', join '', '' (acceptance_criteria (fd_ticket data)))]"

text \<open>The loop over the entries of the table, in table order.\<close>

definition fillEntries :: "(string \<times> string) list \<Rightarrow> string \<Rightarrow> string" where
  "fillEntries entries content =
     foldl (\<lambda>content (variable, value).
              replaceAll variable (orElse value ''Not specified'') [] content)
       content entries"

definition fillTemplate :: "PromptTemplate \<Rightarrow> FillData \<Rightarrow> string" where
  "fillTemplate template data = fillEntries (replacements data) (pt_template template)"

subsection \<open>\<open>loadStandards\<close>, \<open>savePromptVersion\<close>, \<open>generatePrompt\<close>\<close>

definition loadStandards :: "store \<Rightarrow> Standards" where
  "loadStandards st =
     (let dir = standardsDir st;
          modular =
            concat (map (\<lambda>file. case dir file of
                                   None \<Rightarrow> []
                                 | Some content \<Rightarrow> content @ ''\<newline>\<newline>'')
                      [''development-best-practices.md'', ''code-style-guide.md'']);
          codingContent =
            (if modular = [] then
               (case dir ''coding-standards.md'' of None \<Rightarrow> modular | Some content \<Rightarrow> content)
             else modular)
      in \<lparr>coding =
             orElse codingContent
               ''No coding standards found. Run `sherpa add:standard` to create.'',
           testing =
             (case dir ''testing-standards.md'' of
                Some content \<Rightarrow> content
              | None \<Rightarrow>
                  ''No testing standards found. Run `sherpa add:standard --type testing` to create.''),
           techstack =
             (case dir ''tech-stack.md'' of
                Some content \<Rightarrow> content
              | None \<Rightarrow>
                  ''No tech stack documented. Run `sherpa add:standard --type techstack` to create.'')\<rparr>)"

definition savePromptVersion :: "clock \<Rightarrow> store \<Rightarrow> string \<Rightarrow> string \<Rightarrow> Ticket \<Rightarrow> store" where
  "savePromptVersion clk st templateId content ticket =
     (let version =
            \<lparr>pv_id = templateId @ ''-'' @ toString_nat (nowMs clk),
             pv_templateId = templateId,
             pv_version = ''1.0.0'',
             pv_content = content,
             pv_metadata =
               \<lparr>createdAt = nowIso clk, usedFor = ticket_id ticket,
                vm_outcome = Success, feedback = []\<rparr>\<rparr>;
          vdir = (case versionsDir st of None \<Rightarrow> Map.empty | Some v \<Rightarrow> v)
      in st\<lparr>versionsDir := Some (vdir(pv_id version @ ''.json'' \<mapsto> Stored version))\<rparr>)"

definition generatePrompt ::
  "fuse \<Rightarrow> clock \<Rightarrow> store \<Rightarrow> Ticket \<Rightarrow> (error + string) \<times> store"
where
  "generatePrompt fz clk st ticket =
     (case getCompressedContext st of
        Inl e \<Rightarrow> (Inl e, st)
      | Inr None \<Rightarrow> (Inl (Error ''No context found. Run `sherpa context:build` first.''), st)
      | Inr (Some context) \<Rightarrow>
          (case selectBestTemplate st ticket of
             Inl e \<Rightarrow> (Inl e, st)
           | Inr template \<Rightarrow>
               (case searchSimilarContext fz st (title ticket @ '' '' @ outcome_text ticket) of
                  Inl e \<Rightarrow> (Inl e, st)
                | Inr relevantContext \<Rightarrow>
                    (let standards = loadStandards st;
                         promptContent =
                           fillTemplate template
                             \<lparr>fd_ticket = ticket, fd_context = context,
                              fd_relevantContext = relevantContext,
                              fd_standards = Some standards\<rparr>
                     in (Inr promptContent,
                         savePromptVersion clk st (pt_id template) promptContent ticket)))))"

section \<open>PromptManager: the feedback loop\<close>

text \<open>
  \<open>performance[templateId]\<close> is a property read on a plain object. A name that is not an
  own property of the object is looked up on \<open>Object.prototype\<close>, whose members are
  listed here; the read then gives an inherited function (for \<open>__proto__\<close> the prototype
  object itself), which is truthy.
\<close>

definition objectPrototypeMembers :: "string list" where
  "objectPrototypeMembers =
     [''constructor'', ''__proto__'', ''hasOwnProperty'', ''isPrototypeOf'',
      ''propertyIsEnumerable'', ''toLocaleString'', ''toString'', ''valueOf'',
      ''__defineGetter__'', ''__defineSetter__'', ''__lookupGetter__'', ''__lookupSetter__'']"

text \<open>
  \<open>updateTemplatePerformance\<close>. When the read of \<open>performance[templateId]\<close> gives an
  inherited member, the test \<open>!performance[templateId]\<close> is false: no record is created,
  the increments and assignments go to the inherited object, and the performance object
  is written back with the own properties it had. Otherwise the record is created or
  updated. The counters are non-negative integers; the rating is the exact quotient (the
  floating-point quotient of the source rounds it, which moves no comparison below while
  the counts stay below ten to the power fifteen).
\<close>

definition updateTemplatePerformance ::
  "clock \<Rightarrow> store \<Rightarrow> string \<Rightarrow> outcome \<Rightarrow> (error + unit) \<times> store"
where
  "updateTemplatePerformance clk st templateId oc =
     (case performanceFile st of
        Some (Malformed s) \<Rightarrow> (Inl (SyntaxError s), st)
      | other \<Rightarrow>
          (let performance = (case other of Some (Stored p) \<Rightarrow> p | _ \<Rightarrow> [])
           in if map_of performance templateId = None \<and> templateId \<in> set objectPrototypeMembers
              then (Inr (), st\<lparr>performanceFile := Some (Stored performance)\<rparr>)
              else
                (let perf0 =
                       (case map_of performance templateId of
                          Some p \<Rightarrow> p
                        | None \<Rightarrow>
                            \<lparr>pp_templateId = templateId, totalUses = 0, successCount = 0,
                             failureCount = 0, averageRating = 0, commonIssues = [],
                             lastAnalyzed = nowIso clk\<rparr>);
                     perf1 = perf0\<lparr>totalUses := totalUses perf0 + 1\<rparr>;
                     perf2 =
                       (if oc = Success then perf1\<lparr>successCount := successCount perf1 + 1\<rparr>
                        else if oc = Failure then perf1\<lparr>failureCount := failureCount perf1 + 1\<rparr>
                        else perf1);
                     perf3 = perf2\<lparr>lastAnalyzed := nowIso clk\<rparr>;
                     perf4 =
                       perf3\<lparr>averageRating :=
                               of_nat (successCount perf3) / of_nat (totalUses perf3)\<rparr>
                 in (Inr (),
                     st\<lparr>performanceFile :=
                          Some (Stored (AList.update templateId perf4 performance))\<rparr>))))"

text \<open>The file at a path of the versions directory, if both exist.\<close>

definition versionFile :: "store \<Rightarrow> string \<Rightarrow> PromptVersion stored option" where
  "versionFile st file = (case versionsDir st of None \<Rightarrow> None | Some vdir \<Rightarrow> vdir file)"

definition recordPromptOutcome ::
  "clock \<Rightarrow> store \<Rightarrow> string \<Rightarrow> outcome \<Rightarrow> string \<Rightarrow> (error + unit) \<times> store"
where
  "recordPromptOutcome clk st versionId oc fb =
     (let versionPath = versionId @ ''.json''
      in case versionFile st versionPath of
           None \<Rightarrow> (Inr (), st)
         | Some (Malformed s) \<Rightarrow> (Inl (SyntaxError s), st)
         | Some (Stored version) \<Rightarrow>
             (let version' =
                    version\<lparr>pv_metadata := (pv_metadata version)\<lparr>vm_outcome := oc, feedback := fb\<rparr>\<rparr>;
                  vdir = (case versionsDir st of None \<Rightarrow> Map.empty | Some v \<Rightarrow> v);
                  st' = st\<lparr>versionsDir := Some (vdir(versionPath \<mapsto> Stored version'))\<rparr>
              in updateTemplatePerformance clk st' (pv_templateId version) oc))"

definition analyzePromptPerformance :: "store \<Rightarrow> error + PromptPerformance list" where
  "analyzePromptPerformance st =
     (case performanceFile st of
        None \<Rightarrow> Inr []
      | Some (Malformed s) \<Rightarrow> Inl (SyntaxError s)
      | Some (Stored performance) \<Rightarrow> Inr (map snd performance))"

text \<open>
  \<open>optimizePrompts\<close> only logs one line per template it finds underperforming; the model
  returns the records it logs, in order.
\<close>

definition optimizePrompts :: "store \<Rightarrow> error + PromptPerformance list" where
  "optimizePrompts st =
     (case analyzePromptPerformance st of
        Inl e \<Rightarrow> Inl e
      | Inr performance \<Rightarrow>
          (case getTemplates st of
             Inl e \<Rightarrow> Inl e
           | Inr templates \<Rightarrow>
               Inr (filter (\<lambda>perf. averageRating perf < 7 / 10 \<and> totalUses perf > 5) performance)))"

text \<open>The \<open>underPerforming\<close> list of the \<open>prompt:optimize\<close> command (prompt-optimize.ts).\<close>

definition underPerforming :: "PromptPerformance list \<Rightarrow> PromptPerformance list" where
  "underPerforming performance =
     filter (\<lambda>p. averageRating p < 7 / 10 \<and> totalUses p > 3) performance"

section \<open>ContextManager: building the snapshot (context.ts)\<close>

subsection \<open>The parsed source tree\<close>

text \<open>
  \<open>@babel/parser\<close> and \<open>@babel/traverse\<close> are libraries outside the repository. A source
  file is given with the result of parsing it: nothing when the parser raises, or the
  function declarations, class declarations and import declarations of its syntax tree
  in the order the traversal visits them, each with the fields the extractor reads.
\<close>

datatype param = Identifier string bool | OtherParam bool

fun typeAnnotation :: "param \<Rightarrow> bool" where
  "typeAnnotation (Identifier name ann) = ann"
| "typeAnnotation (OtherParam ann) = ann"

datatype member = ClassMethod string | OtherMember

datatype specifier = ImportDefaultSpecifier | ImportSpecifier | ImportNamespaceSpecifier

datatype node =
    FunctionDeclaration "string option" "param list" bool
  | ClassDeclaration "string option" "member list"
  | ImportDeclaration string "specifier list"

type_synonym patternMap = "(string \<times> CodePattern) list"

subsection \<open>The three extractors\<close>

text \<open>
  The pattern registry is a JavaScript \<open>Map\<close>: an association list in insertion order.
  The three extractors end alike: an existing entry is changed in place, a new one is
  added last.
\<close>

definition record_pattern :: "string \<Rightarrow> string \<Rightarrow> CodePattern \<Rightarrow> patternMap \<Rightarrow> patternMap" where
  "record_pattern now file fresh pats =
     (case map_of pats (cp_id fresh) of
        Some existing \<Rightarrow>
          AList.update (cp_id fresh)
            (existing\<lparr>cp_frequency := cp_frequency existing + 1,
                      cp_files := cp_files existing @ [file],
                      cp_lastSeen := now\<rparr>) pats
      | None \<Rightarrow> AList.update (cp_id fresh) fresh pats)"

definition functionPatternId :: "nat \<Rightarrow> bool \<Rightarrow> string" where
  "functionPatternId params isAsync =
     ''function-'' @ toString_nat params @ ''-params-'' @ (if isAsync then ''async'' else ''sync'')"

definition extractFunctionPattern ::
  "string \<Rightarrow> string \<Rightarrow> string option \<Rightarrow> param list \<Rightarrow> bool \<Rightarrow> patternMap \<Rightarrow> patternMap"
where
  "extractFunctionPattern now file ident ps isAsync pats =
     (case ident of
        None \<Rightarrow> pats
      | Some functionName \<Rightarrow>
          (let params = length ps;
               hasTypeAnnotations = list_ex typeAnnotation ps;
               patternId = functionPatternId params isAsync
           in record_pattern now file
                \<lparr>cp_id = patternId,
                 cp_name = (if isAsync then ''Async'' else ''Sync'') @ '' function with ''
                             @ toString_nat params @ '' parameters'',
                 cp_description = ''Functions with '' @ toString_nat params @ '' parameters, ''
                             @ (if hasTypeAnnotations then ''with'' else ''without'')
                             @ '' type annotations'',
                 cp_example = ''function '' @ functionName @ ''(''
                             @ join '', '' (map (\<lambda>p. case p of Identifier name ann \<Rightarrow> name
                                                        | OtherParam ann \<Rightarrow> ''...'') ps)
                             @ '') { ... }'',
                 cp_frequency = 1, cp_files = [file], cp_lastSeen = now\<rparr> pats))"

definition extractClassPattern ::
  "string \<Rightarrow> string \<Rightarrow> string option \<Rightarrow> member list \<Rightarrow> patternMap \<Rightarrow> patternMap"
where
  "extractClassPattern now file ident body pats =
     (case ident of
        None \<Rightarrow> pats
      | Some className \<Rightarrow>
          (let hasConstructor = list_ex (\<lambda>m. m = ClassMethod ''constructor'') body;
               methodCount = length (filter (\<lambda>m. m = ClassMethod ''method'') body);
               patternId = ''class-'' @ toString_nat methodCount @ ''-methods''
           in record_pattern now file
                \<lparr>cp_id = patternId,
                 cp_name = ''Class with '' @ toString_nat methodCount @ '' methods'',
                 cp_description = ''Classes with '' @ toString_nat methodCount @ '' methods, ''
                             @ (if hasConstructor then ''with'' else ''without'') @ '' constructor'',
                 cp_example = ''class '' @ className @ '' { ... }'',
                 cp_frequency = 1, cp_files = [file], cp_lastSeen = now\<rparr> pats))"

definition extractImportPattern ::
  "string \<Rightarrow> string \<Rightarrow> string \<Rightarrow> specifier list \<Rightarrow> patternMap \<Rightarrow> patternMap"
where
  "extractImportPattern now file source specifiers pats =
     (let isRelative = (startsWith source ''./'' \<or> startsWith source ''../'');
          specifierCount = length specifiers;
          hasDefaultImport = list_ex (\<lambda>s. s = ImportDefaultSpecifier) specifiers;
          patternId = ''import-'' @ (if isRelative then ''relative'' else ''package'') @ ''-''
                        @ toString_nat specifierCount
      in record_pattern now file
           \<lparr>cp_id = patternId,
            cp_name = (if isRelative then ''Relative'' else ''Package'') @ '' import with ''
                        @ toString_nat specifierCount @ '' specifiers'',
            cp_description = ''Import from '' @ (if isRelative then ''relative path'' else ''npm package'')
                        @ '' with '' @ toString_nat specifierCount @ '' specifiers, ''
                        @ (if hasDefaultImport then ''with'' else ''without'') @ '' default import'',
            cp_example = ''import { ... } from '' @ [CHR 0x27] @ source @ [CHR 0x27] @ '';'',
            cp_frequency = 1, cp_files = [file], cp_lastSeen = now\<rparr> pats)"

subsection \<open>\<open>extractPatterns\<close>\<close>

fun visit :: "string \<Rightarrow> string \<Rightarrow> node \<Rightarrow> patternMap \<Rightarrow> patternMap" where
  "visit now file (FunctionDeclaration ident ps isAsync) pats =
     extractFunctionPattern now file ident ps isAsync pats"
| "visit now file (ClassDeclaration ident body) pats = extractClassPattern now file ident body pats"
| "visit now file (ImportDeclaration source specifiers) pats =
     extractImportPattern now file source specifiers pats"

text \<open>
  The clock is read at every visit: \<open>readings k\<close> is the value read at the \<open>k\<close>-th visited
  declaration of the build.
\<close>

fun traverse :: "(nat \<Rightarrow> string) \<Rightarrow> nat \<Rightarrow> string \<Rightarrow> node list \<Rightarrow> patternMap \<Rightarrow> patternMap" where
  "traverse readings k file [] pats = pats"
| "traverse readings k file (n # ns) pats = traverse readings (Suc k) file ns (visit (readings k) file n pats)"

fun extractLoop ::
  "(nat \<Rightarrow> string) \<Rightarrow> nat \<Rightarrow> (string \<times> node list option) list \<Rightarrow> patternMap \<Rightarrow> patternMap"
where
  "extractLoop readings k [] pats = pats"
| "extractLoop readings k ((file, parsed) # rest) pats =
     (case parsed of
        None \<Rightarrow> extractLoop readings k rest pats
      | Some nodes \<Rightarrow>
          extractLoop readings (k + length nodes) rest (traverse readings k file nodes pats))"

definition extractPatterns ::
  "(nat \<Rightarrow> string) \<Rightarrow> (string \<times> node list option) list \<Rightarrow> CodePattern list"
where
  "extractPatterns readings files = map snd (extractLoop readings 0 files [])"

subsection \<open>Decisions, pitfalls, summary and fingerprint\<close>

text \<open>
  \<open>package.json\<close> as the code reads it: the two dependency objects, each a list of
  (name, version) entries in the order of the file, one entry for a name.
\<close>

record Manifest =
  dependencies :: "(string \<times> string) list option"
  devDependencies :: "(string \<times> string) list option"

text \<open>
  The project as the build reads it: the source files found by the walker with their
  parse results, the listings of the decision-record directories that exist (in the
  order the code looks them up; file name and content), and the manifest.
\<close>

record project =
  sourceFiles :: "(string \<times> node list option) list"
  adrDirs :: "(string \<times> string) list list"
  packageJson :: "Manifest stored option"

fun splitOn :: "char \<Rightarrow> string \<Rightarrow> string list" where
  "splitOn sep [] = [[]]"
| "splitOn sep (c # cs) =
     (if c = sep then [] # splitOn sep cs
      else (case splitOn sep cs of [] \<Rightarrow> [[c]] | l # ls \<Rightarrow> (c # l) # ls))"

fun removeFirst :: "string \<Rightarrow> string \<Rightarrow> string" where
  "removeFirst p [] = []"
| "removeFirst p (c # cs) =
     (if startsWith (c # cs) p then drop (length p) (c # cs) else c # removeFirst p cs)"

definition parseArchitecturalDecision :: "clock \<Rightarrow> string \<Rightarrow> string \<Rightarrow> ArchitecturalDecision" where
  "parseArchitecturalDecision clk content filename =
     \<lparr>ad_id = removeFirst ''.md'' filename,
      ad_title =
        orElse (case find (\<lambda>line. startsWith line ''# '') (splitOn CHR 0x0A content) of
                  None \<Rightarrow> []
                | Some line \<Rightarrow> drop 2 line) filename,
      ad_decision = take 200 content @ ''...'',
      ad_rationale = ''Extracted from documentation'',
      ad_consequences = [],
      ad_date = nowIso clk,
      ad_files = [filename]\<rparr>"

definition extractImplicitDecisions :: "clock \<Rightarrow> project \<Rightarrow> error + ArchitecturalDecision list" where
  "extractImplicitDecisions clk proj =
     (case packageJson proj of
        None \<Rightarrow> Inr []
      | Some (Malformed s) \<Rightarrow> Inl (SyntaxError s)
      | Some (Stored pkg) \<Rightarrow>
          Inr ((if (case dependencies pkg of
                      None \<Rightarrow> False
                    | Some deps \<Rightarrow> (case map_of deps ''react'' of None \<Rightarrow> False | Some v \<Rightarrow> v \<noteq> []))
                then [\<lparr>ad_id = ''tech-stack-react'', ad_title = ''Use React for UI'',
                       ad_decision = ''Chosen React as the UI framework'',
                       ad_rationale =
                         ''React provides component-based architecture and strong ecosystem'',
                       ad_consequences =
                         [''Need to manage component lifecycle'', ''JSX syntax required''],
                       ad_date = nowIso clk, ad_files = [''package.json'']\<rparr>]
                else [])
               @ (if (case devDependencies pkg of
                        None \<Rightarrow> False
                      | Some deps \<Rightarrow>
                          (case map_of deps ''typescript'' of None \<Rightarrow> False | Some v \<Rightarrow> v \<noteq> []))
                  then [\<lparr>ad_id = ''tech-stack-typescript'', ad_title = ''Use TypeScript'',
                         ad_decision = ''Chosen TypeScript for type safety'',
                         ad_rationale =
                           ''TypeScript provides static type checking and better IDE support'',
                         ad_consequences =
                           [''Compilation step required'', ''Learning curve for team''],
                         ad_date = nowIso clk, ad_files = [''package.json'', ''tsconfig.json'']\<rparr>]
                  else [])))"

definition extractDecisions :: "clock \<Rightarrow> project \<Rightarrow> error + ArchitecturalDecision list" where
  "extractDecisions clk proj =
     (let documented =
            concat (map (\<lambda>dir. map (\<lambda>(file, content). parseArchitecturalDecision clk content file)
                                  (filter (\<lambda>(file, content). endsWith file ''.md'') dir))
                      (adrDirs proj))
      in case extractImplicitDecisions clk proj of
           Inl e \<Rightarrow> Inl e
         | Inr implicitDecisions \<Rightarrow> Inr (documented @ implicitDecisions))"

definition loadPitfalls :: "CommonPitfall list" where
  "loadPitfalls =
     [\<lparr>pf_id = ''over-abstraction'',
       pf_pattern = ''Creating interfaces for single implementations'',
       pf_description = ''AI tends to create unnecessary abstractions'',
       pf_solution = ''Start concrete, abstract when you have 2+ implementations'',
       pf_frequency = 0, pf_examples = []\<rparr>,
      \<lparr>pf_id = ''missing-error-handling'',
       pf_pattern = ''Functions without proper error handling'',
       pf_description = ''AI often skips comprehensive error handling'',
       pf_solution = ''Always handle edge cases and provide meaningful error messages'',
       pf_frequency = 0, pf_examples = []\<rparr>]"

text \<open>
  \<open>generateSummary\<close> sorts the pattern array in place, by falling frequency, before it
  takes the first five; the sort is stable. The snapshot holds the array so sorted.
\<close>

definition sortByFrequency :: "CodePattern list \<Rightarrow> CodePattern list" where
  "sortByFrequency ps = sort_key (\<lambda>p. - int (cp_frequency p)) ps"

definition generateSummary ::
  "CodePattern list \<Rightarrow> ArchitecturalDecision list \<Rightarrow> CommonPitfall list \<Rightarrow> string"
where
  "generateSummary ps ds pfs =
     (let topPatterns =
            join '', ''
              (map (\<lambda>p. cp_name p @ '' (used '' @ toString_nat (cp_frequency p) @ '' times)'')
                 (take 5 (sortByFrequency ps)));
          keyDecisions = join '', '' (map ad_title (take 3 ds))
      in ''This codebase primarily uses: '' @ topPatterns @ ''. Key architectural decisions: ''
           @ keyDecisions @ ''. Watch out for common pitfalls in AI-generated code.'')"

definition objectKeys :: "(string \<times> string) list option \<Rightarrow> string list" where
  "objectKeys obj = (case obj of None \<Rightarrow> [] | Some entries \<Rightarrow> map fst entries)"

definition fingerprintOf :: "Manifest \<Rightarrow> string" where
  "fingerprintOf pkg =
     (let deps = sort (objectKeys (dependencies pkg));
          devDeps = sort (objectKeys (devDependencies pkg))
      in join '','' deps @ ''|'' @ join '','' devDeps)"

definition generateCodebaseFingerprint :: "project \<Rightarrow> error + string" where
  "generateCodebaseFingerprint proj =
     (case packageJson proj of
        None \<Rightarrow> Inr ''unknown''
      | Some (Malformed s) \<Rightarrow> Inl (SyntaxError s)
      | Some (Stored pkg) \<Rightarrow> Inr (fingerprintOf pkg))"

subsection \<open>\<open>buildContext\<close>\<close>

text \<open>
  The two narrative projections (\<open>patterns.md\<close>, \<open>decisions.md\<close>) are written and never
  read back; they are not part of the modelled store.
\<close>

definition buildContext ::
  "clock \<Rightarrow> (nat \<Rightarrow> string) \<Rightarrow> project \<Rightarrow> store \<Rightarrow> (error + CompressedContext) \<times> store"
where
  "buildContext clk readings proj st =
     (let extracted = extractPatterns readings (sourceFiles proj)
      in case extractDecisions clk proj of
           Inl e \<Rightarrow> (Inl e, st)
         | Inr ds \<Rightarrow>
             (let pfs = loadPitfalls;
                  summ = generateSummary extracted ds pfs
              in case generateCodebaseFingerprint proj of
                   Inl e \<Rightarrow> (Inl e, st)
                 | Inr fingerprint \<Rightarrow>
                     (let context =
                            \<lparr>patterns = sortByFrequency extracted, decisions = ds,
                             pitfalls = pfs, summary = summ, lastUpdated = nowIso clk,
                             codebaseFingerprint = fingerprint\<rparr>
                      in (Inr context, st\<lparr>compressedFile := Some (Stored context)\<rparr>))))"

section \<open>Reference definitions and sample data\<close>

definition templateFile :: "store \<Rightarrow> string \<Rightarrow> PromptTemplate stored option" where
  "templateFile st file = (case templatesDir st of None \<Rightarrow> None | Some dir \<Rightarrow> map_of dir file)"

definition seedFor :: "string \<Rightarrow> PromptTemplate option" where
  "seedFor file = find (\<lambda>t. pt_id t @ ''.json'' = file) getDefaultTemplates"

definition emptyStore :: store where
  "emptyStore = \<lparr>compressedFile = None, templatesDir = None, versionsDir = None,
                  performanceFile = None, standardsDir = Map.empty\<rparr>"

definition substringFuse :: fuse where
  "substringFuse =
     \<lparr>searchPatterns = (\<lambda>keys threshold items query.
          filter (\<lambda>item. list_ex (\<lambda>key. includes_str (toLowerCase (key item)) (toLowerCase query)) keys) items),
      searchDecisions = (\<lambda>keys threshold items query.
          filter (\<lambda>item. list_ex (\<lambda>key. includes_str (toLowerCase (key item)) (toLowerCase query)) keys) items)\<rparr>"

definition exampleClock :: clock where
  "exampleClock = \<lparr>nowMs = 1700000000000, nowIso = ''2023-11-14T22:13:20.000Z''\<rparr>"

definition loginTicket :: Ticket where
  "loginTicket =
     \<lparr>ticket_id = ''BUG-001'', title = ''Fix login bug'', outcome_text = ''Login works again'',
      scope_in = [], scope_out = [], acceptance_criteria = [''Bug resolved''],
      apidiff = None, dbdiff = None, ui_components = None,
      telemetry = \<lparr>events = [], alerts = []\<rparr>,
      test_plan = \<lparr>unit_tests = [], e2e = []\<rparr>, timebox_hours = 3, owner = ''dev''\<rparr>"

definition exampleVersion :: PromptVersion where
  "exampleVersion =
     \<lparr>pv_id = ''bug-fix-1700000000000'', pv_templateId = ''bug-fix'', pv_version = ''1.0.0'',
      pv_content = ''# Bug Fix Task'',
      pv_metadata = \<lparr>createdAt = ''2023-11-14T22:13:20.000Z'', usedFor = ''BUG-001'',
                     vm_outcome = Success, feedback = []\<rparr>\<rparr>"

definition storeWithVersion :: store where
  "storeWithVersion =
     (initializePrompts emptyStore)
       \<lparr>versionsDir := Some [''bug-fix-1700000000000.json'' \<mapsto> Stored exampleVersion]\<rparr>"

definition customTemplate :: PromptTemplate where
  "customTemplate =
     \<lparr>pt_id = ''feature-implementation'', pt_name = ''Custom Feature Template'',
      pt_category = Feature, pt_template = ''Custom template content {{CUSTOM_VAR}}'',
      pt_variables = [''CUSTOM_VAR''], pt_successRate = 0, pt_usageCount = 0,
      pt_lastUsed = [], pt_aiModel = None\<rparr>"

definition customStore :: store where
  "customStore =
     emptyStore\<lparr>templatesDir := Some [(''feature-implementation.json'', Stored customTemplate)]\<rparr>"

definition weakPerformance :: PromptPerformance where
  "weakPerformance =
     \<lparr>pp_templateId = ''bug-fix'', totalUses = 4, successCount = 2, failureCount = 2,
      averageRating = 1 / 2, commonIssues = [], lastAnalyzed = ''2023-11-14T22:13:20.000Z''\<rparr>"

definition weakStore :: store where
  "weakStore =
     (initializePrompts emptyStore)\<lparr>performanceFile := Some (Stored [(''bug-fix'', weakPerformance)])\<rparr>"

text \<open>A case-insensitive substring test, and the first template of a category.\<close>

definition mentions :: "string \<Rightarrow> string \<Rightarrow> bool" where
  "mentions text word = includes_str (toLowerCase text) word"

definition firstOf :: "category \<Rightarrow> PromptTemplate list \<Rightarrow> PromptTemplate option" where
  "firstOf c templates = find (\<lambda>t. pt_category t = c) templates"

definition seededStore :: store where
  "seededStore = initializePrompts emptyStore"

definition searchTicket :: Ticket where
  "searchTicket = loginTicket\<lparr>ticket_id := ''FEAT-001'', title := ''Add search'',
                               outcome_text := ''Users can search for other users''\<rparr>"

definition noBugfixStore :: store where
  "noBugfixStore =
     emptyStore\<lparr>templatesDir :=
       Some [(''feature-implementation.json'', Stored (getDefaultTemplates ! 0)),
             (''refactor.json'', Stored (getDefaultTemplates ! 2))]\<rparr>"

definition fixRefactorTicket :: Ticket where
  "fixRefactorTicket = loginTicket\<lparr>title := ''Fix refactor script'',
                                     outcome_text := ''The script runs again''\<rparr>"

text \<open>
  A sequence of awaited \<open>recordPromptOutcome\<close> calls, each with its own clock value; the
  sequence stops at the first call that raises.
\<close>

record outcomeCall =
  oc_clock :: clock
  oc_versionId :: string
  oc_outcome :: outcome
  oc_feedback :: string

fun recordOutcomes :: "store \<Rightarrow> outcomeCall list \<Rightarrow> (error + unit) \<times> store" where
  "recordOutcomes st [] = (Inr (), st)"
| "recordOutcomes st (c # cs) =
     (case recordPromptOutcome (oc_clock c) st (oc_versionId c) (oc_outcome c) (oc_feedback c) of
        (Inl e, st') \<Rightarrow> (Inl e, st')
      | (Inr u, st') \<Rightarrow> recordOutcomes st' cs)"

text \<open>
  The performance record of a template, the template a stored version belongs to, the
  calls of a sequence that concern a template, and a performance file that parses.
\<close>

definition performanceOf :: "store \<Rightarrow> string \<Rightarrow> PromptPerformance option" where
  "performanceOf st templateId =
     (case performanceFile st of Some (Stored performance) \<Rightarrow> map_of performance templateId | _ \<Rightarrow> None)"

definition versionTemplate :: "store \<Rightarrow> string \<Rightarrow> string option" where
  "versionTemplate st versionId =
     (case versionFile st (versionId @ ''.json'') of
        Some (Stored version) \<Rightarrow> Some (pv_templateId version)
      | _ \<Rightarrow> None)"

definition callsFor :: "store \<Rightarrow> string \<Rightarrow> outcomeCall list \<Rightarrow> outcomeCall list" where
  "callsFor st templateId calls =
     filter (\<lambda>c. versionTemplate st (oc_versionId c) = Some templateId) calls"

definition readable :: "store \<Rightarrow> bool" where
  "readable st = (case performanceFile st of Some (Malformed s) \<Rightarrow> False | _ \<Rightarrow> True)"

definition laterClock :: clock where
  "laterClock = \<lparr>nowMs = 1700000600000, nowIso = ''2023-11-14T22:23:20.000Z''\<rparr>"

definition threeCalls :: "outcomeCall list" where
  "threeCalls =
     [\<lparr>oc_clock = exampleClock, oc_versionId = ''bug-fix-1700000000000'',
       oc_outcome = Success, oc_feedback = ''Worked perfectly''\<rparr>,
      \<lparr>oc_clock = exampleClock, oc_versionId = ''bug-fix-1700000000000'',
       oc_outcome = Partial, oc_feedback = ''Needed edits''\<rparr>,
      \<lparr>oc_clock = laterClock, oc_versionId = ''bug-fix-1700000000000'',
       oc_outcome = Failure, oc_feedback = ''Did not compile''\<rparr>]"

text \<open>
  Reading a decimal numeral back, the inverse of \<open>toString_nat\<close>.
\<close>

definition digitValue :: "char \<Rightarrow> nat" where
  "digitValue c =
     (case map_of (zip ''0123456789'' [0, 1, 2, 3, 4, 5, 6, 7, 8, 9]) c of
        None \<Rightarrow> 0
      | Some v \<Rightarrow> v)"

definition readNat :: "string \<Rightarrow> nat" where
  "readNat s = foldl (\<lambda>acc c. 10 * acc + digitValue c) 0 s"

text \<open>
  The declarations of the files that parsed; the frequency a pattern list holds for a
  signature (0 when it has no entry); the signature under which the extractor counts a
  declaration, if it counts it; function declarations of a given shape, with an
  identifier and with or without one.
\<close>

definition parsedNodes :: "(string \<times> node list option) list \<Rightarrow> node list" where
  "parsedNodes files =
     concat (map (\<lambda>(file, parsed). case parsed of None \<Rightarrow> [] | Some nodes \<Rightarrow> nodes) files)"

definition frequencyOf :: "string \<Rightarrow> CodePattern list \<Rightarrow> nat" where
  "frequencyOf signature ps =
     (case find (\<lambda>p. cp_id p = signature) ps of None \<Rightarrow> 0 | Some p \<Rightarrow> cp_frequency p)"

fun patternKey :: "node \<Rightarrow> string option" where
  "patternKey (FunctionDeclaration ident ps isAsync) =
     (case ident of None \<Rightarrow> None | Some name \<Rightarrow> Some (functionPatternId (length ps) isAsync))"
| "patternKey (ClassDeclaration ident body) =
     (case ident of
        None \<Rightarrow> None
      | Some name \<Rightarrow>
          Some (''class-'' @ toString_nat (length (filter (\<lambda>m. m = ClassMethod ''method'') body))
                  @ ''-methods''))"
| "patternKey (ImportDeclaration source specifiers) =
     Some (''import-''
             @ (if startsWith source ''./'' \<or> startsWith source ''../'' then ''relative'' else ''package'')
             @ ''-'' @ toString_nat (length specifiers))"

fun namedFunction :: "nat \<Rightarrow> bool \<Rightarrow> node \<Rightarrow> bool" where
  "namedFunction n a (FunctionDeclaration ident ps isAsync) =
     (ident \<noteq> None \<and> length ps = n \<and> isAsync = a)"
| "namedFunction n a (ClassDeclaration ident body) = False"
| "namedFunction n a (ImportDeclaration source specifiers) = False"

fun anyFunction :: "nat \<Rightarrow> bool \<Rightarrow> node \<Rightarrow> bool" where
  "anyFunction n a (FunctionDeclaration ident ps isAsync) = (length ps = n \<and> isAsync = a)"
| "anyFunction n a (ClassDeclaration ident body) = False"
| "anyFunction n a (ImportDeclaration source specifiers) = False"

text \<open>
  The frequency the registry holds under a key.
\<close>

definition freqIn :: "patternMap \<Rightarrow> string \<Rightarrow> nat" where
  "freqIn pats k = (case map_of pats k of None \<Rightarrow> 0 | Some p \<Rightarrow> cp_frequency p)"

definition keyed :: "patternMap \<Rightarrow> bool" where
  "keyed pats = (distinct (map fst pats) \<and> (\<forall>(k, p) \<in> set pats. cp_id p = k))"

text \<open>
  Sample source trees, clocks and a sample project.
\<close>

definition scenarioTree :: "(string \<times> node list option) list" where
  "scenarioTree =
     [(''src/math.ts'',
         Some [FunctionDeclaration (Some ''add'') [Identifier ''a'' True, Identifier ''b'' True] False,
               FunctionDeclaration (Some ''sub'') [Identifier ''a'' True, Identifier ''b'' True] False]),
      (''src/broken.ts'', None),
      (''src/util.ts'',
         Some [ImportDeclaration ''./math'' [ImportSpecifier, ImportSpecifier],
               FunctionDeclaration (Some ''mul'') [Identifier ''x'' False, OtherParam False] False,
               FunctionDeclaration (Some ''load'') [Identifier ''url'' True] True])]"

definition defaultExportTree :: "(string \<times> node list option) list" where
  "defaultExportTree =
     [(''pages/api/hello.ts'',
         Some [FunctionDeclaration None [Identifier ''req'' False, Identifier ''res'' False] False])]"

definition fixedReadings :: "nat \<Rightarrow> string" where
  "fixedReadings k = ''2023-11-14T22:13:20.000Z''"

definition laterReadings :: "nat \<Rightarrow> string" where
  "laterReadings k = ''2023-11-14T22:23:20.'' @ toString_nat k @ ''Z''"

definition scenarioManifest :: Manifest where
  "scenarioManifest =
     \<lparr>dependencies = Some [(''react'', ''^18.2.0''), (''commander'', ''^11.0.0'')],
      devDependencies = Some [(''vitest'', ''^1.0.0''), (''typescript'', ''^5.0.0'')]\<rparr>"

definition scenarioProject :: project where
  "scenarioProject =
     \<lparr>sourceFiles = scenarioTree, adrDirs = [], packageJson = Some (Stored scenarioManifest)\<rparr>"













text \<open>
  A populated snapshot, the data \<open>generatePrompt\<close> passes to \<open>fillTemplate\<close> for the
  login ticket when the search retrieves nothing and when it retrieves the pattern and
  the decision of the snapshot, the data for a second ticket, and the expected prompts.
\<close>

definition sampleContext :: CompressedContext where
  "sampleContext =
     \<lparr>patterns =
        [\<lparr>cp_id = ''function-2-params-sync'', cp_name = ''Sync function with 2 parameters'',
          cp_description = ''Functions with 2 parameters, with type annotations'',
          cp_example = ''function add(a, b) { ... }'', cp_frequency = 3,
          cp_files = [''src/math.ts'', ''src/math.ts'', ''src/util.ts''],
          cp_lastSeen = ''2023-11-14T22:13:20.000Z''\<rparr>],
      decisions =
        [\<lparr>ad_id = ''tech-stack-typescript'', ad_title = ''Use TypeScript'',
          ad_decision = ''Chosen TypeScript for type safety'',
          ad_rationale = ''TypeScript provides static type checking and better IDE support'',
          ad_consequences = [''Compilation step required'', ''Learning curve for team''],
          ad_date = ''2023-11-14T22:13:20.000Z'', ad_files = [''package.json'', ''tsconfig.json'']\<rparr>],
      pitfalls = loadPitfalls,
      summary = ''This codebase primarily uses: Sync function with 2 parameters (used 3 times). Key architectural decisions: Use TypeScript. Watch out for common pitfalls in AI-generated code.'',
      lastUpdated = ''2023-11-14T22:13:20.000Z'',
      codebaseFingerprint = ''commander,react|typescript,vitest''\<rparr>"





definition customPopulatedStore :: store where
  "customPopulatedStore = customStore\<lparr>compressedFile := Some (Stored sampleContext)\<rparr>"


definition noMatchQuery :: string where
  "noMatchQuery = ''zzz-no-match-qqq''"

text \<open>
  A store holding one version compiled from a user template whose id is \<open>constructor\<close>.
\<close>

definition constructorVersion :: PromptVersion where
  "constructorVersion =
     \<lparr>pv_id = ''constructor-1700000000000'', pv_templateId = ''constructor'',
      pv_version = ''1.0.0'', pv_content = ''Custom template content'',
      pv_metadata = \<lparr>createdAt = ''2023-11-14T22:13:20.000Z'', usedFor = ''FEAT-001'',
                     vm_outcome = Success, feedback = []\<rparr>\<rparr>"

definition constructorStore :: store where
  "constructorStore =
     emptyStore\<lparr>versionsDir := Some [''constructor-1700000000000.json'' \<mapsto> Stored constructorVersion]\<rparr>"


section \<open>Properties\<close>

subsection \<open>Seeding the template directory\<close>

lemma map_of_seedTemplate:
  "map_of (seedTemplate dir t) file =
     (case map_of dir file of
        Some c \<Rightarrow> Some c
      | None \<Rightarrow> if pt_id t @ ''.json'' = file then Some (Stored t) else None)"
  by (auto simp: seedTemplate_def fileExists_def writeJson_def Let_def update_conv'
           split: option.splits)

lemma map_of_foldl_seedTemplate:
  "map_of (foldl seedTemplate dir ts) file =
     (case map_of dir file of
        Some c \<Rightarrow> Some c
      | None \<Rightarrow> map_option Stored (find (\<lambda>t. pt_id t @ ''.json'' = file) ts))"
proof (induction ts arbitrary: dir)
  case Nil
  then show ?case by (simp split: option.splits)
next
  case (Cons t ts)
  show ?case
    by (simp add: Cons.IH map_of_seedTemplate split: option.splits)
qed

lemma foldl_seedTemplate_present:
  "(\<And>t. t \<in> set ts \<Longrightarrow> fileExists dir (pt_id t @ ''.json'')) \<Longrightarrow> foldl seedTemplate dir ts = dir"
  by (induction ts arbitrary: dir) (simp_all add: seedTemplate_def Let_def)

lemma seeds_present_after:
  assumes "t \<in> set ts"
  shows "fileExists (foldl seedTemplate dir ts) (pt_id t @ ''.json'')"
proof -
  have "find (\<lambda>u. pt_id u @ ''.json'' = pt_id t @ ''.json'') ts \<noteq> None"
    using assms by (auto simp: find_None_iff)
  then show ?thesis
    by (auto simp: fileExists_def map_of_foldl_seedTemplate split: option.splits)
qed

text \<open>
  Claim C5 (override preservation). \<open>initializePrompts\<close> leaves the content of every file
  that already exists in the template directory as it is; a file that does not exist
  afterwards holds the seed content if its name is that of one of the three seed
  templates (\<open>feature-implementation.json\<close>, \<open>bug-fix.json\<close>, \<open>refactor.json\<close>) and is
  still absent otherwise; the version files, the snapshot and the performance file are
  not touched; and a second call changes nothing.
\<close>

theorem initializePrompts_preserves_overrides:
  "(\<forall>path content. templateFile st path = Some content
       \<longrightarrow> templateFile (initializePrompts st) path = Some content)
   \<and> (\<forall>path. templateFile st path = None
       \<longrightarrow> templateFile (initializePrompts st) path = map_option Stored (seedFor path))
   \<and> (\<forall>path. versionFile (initializePrompts st) path = versionFile st path)
   \<and> compressedFile (initializePrompts st) = compressedFile st
   \<and> performanceFile (initializePrompts st) = performanceFile st
   \<and> initializePrompts (initializePrompts st) = initializePrompts st"
proof (intro conjI allI impI)
  fix path content
  assume "templateFile st path = Some content"
  then show "templateFile (initializePrompts st) path = Some content"
    by (auto simp: templateFile_def initializePrompts_def map_of_foldl_seedTemplate
             split: option.splits)
next
  fix path
  assume "templateFile st path = None"
  then show "templateFile (initializePrompts st) path = map_option Stored (seedFor path)"
    by (auto simp: templateFile_def initializePrompts_def map_of_foldl_seedTemplate seedFor_def
             split: option.splits)
next
  fix path
  show "versionFile (initializePrompts st) path = versionFile st path"
    by (simp add: versionFile_def initializePrompts_def split: option.splits)
next
  show "compressedFile (initializePrompts st) = compressedFile st"
    by (simp add: initializePrompts_def)
next
  show "performanceFile (initializePrompts st) = performanceFile st"
    by (simp add: initializePrompts_def)
next
  have "foldl seedTemplate (foldl seedTemplate d getDefaultTemplates) getDefaultTemplates
          = foldl seedTemplate d getDefaultTemplates" for d
    by (rule foldl_seedTemplate_present) (rule seeds_present_after)
  then show "initializePrompts (initializePrompts st) = initializePrompts st"
    by (simp add: initializePrompts_def)
qed

text \<open>
  The test of the repository: a custom \<open>feature-implementation.json\<close> survives, and the
  missing \<open>bug-fix.json\<close> is seeded.
\<close>

theorem initializePrompts_preserves_overrides_witness:
  "templateFile customStore ''feature-implementation.json'' = Some (Stored customTemplate)
   \<and> templateFile (initializePrompts customStore) ''feature-implementation.json''
       = Some (Stored customTemplate)
   \<and> templateFile customStore ''bug-fix.json'' = None
   \<and> templateFile (initializePrompts customStore) ''bug-fix.json''
       = Some (Stored (getDefaultTemplates ! 1))"
proof -
  have a: "templateFile customStore ''feature-implementation.json'' = Some (Stored customTemplate)"
    by (simp add: templateFile_def customStore_def)
  have b: "templateFile customStore ''bug-fix.json'' = None"
    by (simp add: templateFile_def customStore_def)
  have c: "seedFor ''bug-fix.json'' = Some (getDefaultTemplates ! 1)"
    by (simp add: seedFor_def getDefaultTemplates_def)
  show ?thesis
    using a b c initializePrompts_preserves_overrides [of customStore] by simp
qed

subsection \<open>Compiling without a snapshot\<close>

text \<open>
  Claim C7 (missing context). When no snapshot file exists, \<open>generatePrompt\<close> raises the
  error \<open>No context found. Run `sherpa context:build` first.\<close>, emits no prompt text and
  leaves the whole store, the version files among it, as it was.
\<close>

theorem generatePrompt_missing_context:
  assumes "compressedFile st = None"
  shows "generatePrompt fz clk st ticket
           = (Inl (Error ''No context found. Run `sherpa context:build` first.''), st)"
  using assms by (simp add: generatePrompt_def getCompressedContext_def)

theorem generatePrompt_missing_context_witness:
  "compressedFile storeWithVersion = None
   \<and> generatePrompt substringFuse exampleClock storeWithVersion loginTicket
       = (Inl (Error ''No context found. Run `sherpa context:build` first.''), storeWithVersion)"
proof -
  have h: "compressedFile storeWithVersion = None"
    by (simp add: storeWithVersion_def initializePrompts_def emptyStore_def)
  show ?thesis
    using h generatePrompt_missing_context [OF h] by simp
qed

subsection \<open>Recording an outcome for an unknown version\<close>

text \<open>
  Claim C10 (unknown version). When no file exists for the version id,
  \<open>recordPromptOutcome\<close> returns normally and the store is unchanged: no version file and
  no performance record is written.
\<close>

theorem recordPromptOutcome_unknown_version:
  assumes "versionFile st (versionId @ ''.json'') = None"
  shows "recordPromptOutcome clk st versionId oc fb = (Inr (), st)"
  using assms by (simp add: recordPromptOutcome_def)

theorem recordPromptOutcome_unknown_version_witness:
  "versionFile storeWithVersion (''bug-fix-42'' @ ''.json'') = None
   \<and> recordPromptOutcome exampleClock storeWithVersion ''bug-fix-42'' Failure ''did not compile''
       = (Inr (), storeWithVersion)"
proof -
  have h: "versionFile storeWithVersion (''bug-fix-42'' @ ''.json'') = None"
    by (simp add: versionFile_def storeWithVersion_def)
  show ?thesis
    using h recordPromptOutcome_unknown_version [OF h] by simp
qed

subsection \<open>Flagging underperforming templates\<close>

text \<open>
  Claim C4 (underperformer flagging). The two places that flag a template disagree on
  the usage floor. A record with rating 0.5 and four uses is in the \<open>underPerforming\<close>
  list of the \<open>prompt:optimize\<close> command (floor: more than 3 uses), as the claim says, and
  is not reported by \<open>optimizePrompts\<close> (floor: more than 5 uses).
\<close>

theorem optimizePrompts_usage_floor:
  "analyzePromptPerformance weakStore = Inr [weakPerformance]
   \<and> underPerforming [weakPerformance] = [weakPerformance]
   \<and> optimizePrompts weakStore = Inr []"
  by (simp add: analyzePromptPerformance_def optimizePrompts_def underPerforming_def weakStore_def
        weakPerformance_def getTemplates_def initializePrompts_def emptyStore_def
        getDefaultTemplates_def seedTemplate_def fileExists_def writeJson_def endsWith_def)

subsection \<open>Choosing the template\<close>

lemma getTemplates_seededStore: "getTemplates seededStore = Inr getDefaultTemplates"
  by (simp add: getTemplates_def seededStore_def initializePrompts_def emptyStore_def
        getDefaultTemplates_def seedTemplate_def fileExists_def writeJson_def endsWith_def)

lemma firstOf_seeds:
  "firstOf Bugfix getDefaultTemplates = Some (getDefaultTemplates ! 1)"
  "firstOf Refactor getDefaultTemplates = Some (getDefaultTemplates ! 2)"
  "firstOf Feature getDefaultTemplates = Some (getDefaultTemplates ! 0)"
  by (simp_all add: firstOf_def getDefaultTemplates_def)

lemma startsWith_map: "startsWith s p \<Longrightarrow> startsWith (map f s) (map f p)"
  by (metis length_map startsWith_def take_map)

lemma includes_str_map: "includes_str s p \<Longrightarrow> includes_str (map f s) (map f p)"
proof (induction s)
  case Nil
  then show ?case by simp
next
  case (Cons c cs)
  then show ?case
    using startsWith_map [of "c # cs" p f] by auto
qed

lemma includes_improve_lower:
  "includes_str s ''improve'' \<Longrightarrow> mentions s ''improve''"
proof -
  assume "includes_str s ''improve''"
  then have "includes_str (map lowerChar s) (map lowerChar ''improve'')"
    by (rule includes_str_map)
  then show ?thesis
    by (simp add: mentions_def toLowerCase_def lowerChar_def)
qed

text \<open>
  Claim C2 (template selection), amended. Let the title be tested without regard to
  case, and take a ticket whose outcome contains \<open>improve\<close> in lower case whenever it
  contains it in any case. If the title contains \<open>fix\<close> or \<open>bug\<close> and a template of
  category bugfix exists, \<open>selectBestTemplate\<close> returns the first such template.
  Otherwise, if the title contains \<open>refactor\<close> or the outcome contains \<open>improve\<close>, and a
  template of category refactor exists, it returns the first such template; a title
  that matched \<open>fix\<close> or \<open>bug\<close> while no bugfix template exists gets this second test
  too. Otherwise it returns the first template of category feature, and raises
  \<open>No prompt template found\<close> when there is none.
\<close>

theorem selectBestTemplate_rule:
  assumes "getTemplates st = Inr templates"
    and "mentions (outcome_text ticket) ''improve'' \<longrightarrow> includes_str (outcome_text ticket) ''improve''"
  shows
    "((mentions (title ticket) ''fix'' \<or> mentions (title ticket) ''bug'')
        \<and> firstOf Bugfix templates = Some b
      \<longrightarrow> selectBestTemplate st ticket = Inr b)
     \<and> (\<not> ((mentions (title ticket) ''fix'' \<or> mentions (title ticket) ''bug'')
              \<and> firstOf Bugfix templates \<noteq> None)
         \<and> (mentions (title ticket) ''refactor'' \<or> mentions (outcome_text ticket) ''improve'')
         \<and> firstOf Refactor templates = Some r
      \<longrightarrow> selectBestTemplate st ticket = Inr r)
     \<and> (\<not> ((mentions (title ticket) ''fix'' \<or> mentions (title ticket) ''bug'')
              \<and> firstOf Bugfix templates \<noteq> None)
         \<and> \<not> ((mentions (title ticket) ''refactor'' \<or> mentions (outcome_text ticket) ''improve'')
              \<and> firstOf Refactor templates \<noteq> None)
      \<longrightarrow> selectBestTemplate st ticket =
            (case firstOf Feature templates of
               Some f \<Rightarrow> Inr f
             | None \<Rightarrow> Inl (Error ''No prompt template found'')))"
proof -
  have "includes_str (outcome_text ticket) ''improve'' = mentions (outcome_text ticket) ''improve''"
    using assms(2) includes_improve_lower by blast
  then show ?thesis
    using assms(1)
    by (auto simp: selectBestTemplate_def mentions_def firstOf_def split: option.splits)
qed

text \<open>
  With the three seed templates, the title \<open>Fix login bug\<close> selects \<open>bug-fix\<close> and the
  title \<open>Add search\<close> selects \<open>feature-implementation\<close>.
\<close>

theorem selectBestTemplate_rule_witness:
  "getTemplates seededStore = Inr getDefaultTemplates
   \<and> \<not> mentions (outcome_text loginTicket) ''improve''
   \<and> mentions (title loginTicket) ''fix''
   \<and> firstOf Bugfix getDefaultTemplates = Some (getDefaultTemplates ! 1)
   \<and> selectBestTemplate seededStore loginTicket = Inr (getDefaultTemplates ! 1)
   \<and> pt_id (getDefaultTemplates ! 1) = ''bug-fix''
   \<and> title searchTicket = ''Add search''
   \<and> selectBestTemplate seededStore searchTicket = Inr (getDefaultTemplates ! 0)
   \<and> pt_id (getDefaultTemplates ! 0) = ''feature-implementation''"
proof -
  have a: "getTemplates seededStore = Inr getDefaultTemplates"
    by (rule getTemplates_seededStore)
  have b: "mentions (outcome_text loginTicket) ''improve''
             \<longrightarrow> includes_str (outcome_text loginTicket) ''improve''"
    by (simp add: mentions_def loginTicket_def toLowerCase_def lowerChar_def startsWith_def)
  have c: "mentions (title loginTicket) ''fix''" "\<not> mentions (outcome_text loginTicket) ''improve''"
    by (simp_all add: mentions_def loginTicket_def toLowerCase_def lowerChar_def startsWith_def)
  have d: "pt_id (getDefaultTemplates ! 1) = ''bug-fix''"
    "pt_id (getDefaultTemplates ! 0) = ''feature-implementation''"
    by (simp_all add: getDefaultTemplates_def)
  have e: "\<not> mentions (outcome_text searchTicket) ''improve''"
    "\<not> mentions (title searchTicket) ''fix''" "\<not> mentions (title searchTicket) ''bug''"
    "\<not> mentions (title searchTicket) ''refactor''" "title searchTicket = ''Add search''"
    by (simp_all add: mentions_def searchTicket_def toLowerCase_def lowerChar_def startsWith_def)
  have b': "mentions (outcome_text searchTicket) ''improve''
             \<longrightarrow> includes_str (outcome_text searchTicket) ''improve''"
    using e(1) by simp
  show ?thesis
    using a b c d e firstOf_seeds
      selectBestTemplate_rule [OF a b, of "getDefaultTemplates ! 1"]
      selectBestTemplate_rule [OF a b']
    by simp
qed

text \<open>
  The claim as written makes \<open>feature-implementation\<close> the fallback when the matched
  category has no template. With \<open>bug-fix.json\<close> removed, the title
  \<open>Fix refactor script\<close> matches \<open>fix\<close>, finds no bugfix template, and is given the
  refactor template.
\<close>

theorem selectBestTemplate_fallthrough_counterexample:
  "getTemplates noBugfixStore = Inr [getDefaultTemplates ! 0, getDefaultTemplates ! 2]
   \<and> mentions (title fixRefactorTicket) ''fix''
   \<and> firstOf Bugfix [getDefaultTemplates ! 0, getDefaultTemplates ! 2] = None
   \<and> selectBestTemplate noBugfixStore fixRefactorTicket = Inr (getDefaultTemplates ! 2)
   \<and> pt_id (getDefaultTemplates ! 2) = ''refactor''"
  by (simp add: getTemplates_def noBugfixStore_def emptyStore_def getDefaultTemplates_def
        endsWith_def selectBestTemplate_def fixRefactorTicket_def loginTicket_def
        mentions_def firstOf_def toLowerCase_def lowerChar_def startsWith_def)

subsection \<open>The feedback loop\<close>

lemma updateTemplatePerformance_step:
  assumes "readable st" and "T \<notin> set objectPrototypeMembers"
  shows "\<exists>st' perf. updateTemplatePerformance clk st T oc = (Inr (), st')
      \<and> readable st'
      \<and> versionsDir st' = versionsDir st
      \<and> (\<forall>U. U \<noteq> T \<longrightarrow> performanceOf st' U = performanceOf st U)
      \<and> performanceOf st' T = Some perf
      \<and> totalUses perf = Suc (case performanceOf st T of None \<Rightarrow> 0 | Some p \<Rightarrow> totalUses p)
      \<and> successCount perf = (case performanceOf st T of None \<Rightarrow> 0 | Some p \<Rightarrow> successCount p)
                               + (if oc = Success then 1 else 0)
      \<and> failureCount perf = (case performanceOf st T of None \<Rightarrow> 0 | Some p \<Rightarrow> failureCount p)
                               + (if oc = Failure then 1 else 0)
      \<and> averageRating perf = of_nat (successCount perf) / of_nat (totalUses perf)
      \<and> lastAnalyzed perf = nowIso clk"
proof -
  define performance where
    "performance = (case performanceFile st of Some (Stored p) \<Rightarrow> p | _ \<Rightarrow> [])"
  define perf0 where
    "perf0 = (case map_of performance T of
                Some p \<Rightarrow> p
              | None \<Rightarrow> \<lparr>pp_templateId = T, totalUses = 0, successCount = 0, failureCount = 0,
                         averageRating = 0, commonIssues = [], lastAnalyzed = nowIso clk\<rparr>)"
  define perf2 where
    "perf2 = (if oc = Success
              then perf0\<lparr>totalUses := totalUses perf0 + 1, successCount := successCount perf0 + 1\<rparr>
              else if oc = Failure
              then perf0\<lparr>totalUses := totalUses perf0 + 1, failureCount := failureCount perf0 + 1\<rparr>
              else perf0\<lparr>totalUses := totalUses perf0 + 1\<rparr>)"
  define perf4 where
    "perf4 = perf2\<lparr>lastAnalyzed := nowIso clk,
                    averageRating := of_nat (successCount perf2) / of_nat (totalUses perf2)\<rparr>"
  define st' where
    "st' = st\<lparr>performanceFile := Some (Stored (AList.update T perf4 performance))\<rparr>"
  have run: "updateTemplatePerformance clk st T oc = (Inr (), st')"
    using assms
    by (cases "performanceFile st")
       (auto simp: updateTemplatePerformance_def readable_def Let_def st'_def perf4_def perf2_def
          perf0_def performance_def split: stored.splits)
  have old: "performanceOf st U = map_of performance U" for U
    using assms
    by (auto simp: performanceOf_def performance_def readable_def split: option.splits stored.splits)
  have new: "performanceOf st' U = (if U = T then Some perf4 else map_of performance U)" for U
    by (simp add: performanceOf_def st'_def update_conv')
  have base: "(case performanceOf st T of None \<Rightarrow> 0 | Some p \<Rightarrow> totalUses p) = totalUses perf0"
    "(case performanceOf st T of None \<Rightarrow> 0 | Some p \<Rightarrow> successCount p) = successCount perf0"
    "(case performanceOf st T of None \<Rightarrow> 0 | Some p \<Rightarrow> failureCount p) = failureCount perf0"
    by (simp_all add: old perf0_def split: option.splits)
  have vals: "totalUses perf4 = Suc (totalUses perf0)"
    "successCount perf4 = successCount perf0 + (if oc = Success then 1 else 0)"
    "failureCount perf4 = failureCount perf0 + (if oc = Failure then 1 else 0)"
    "averageRating perf4 = of_nat (successCount perf4) / of_nat (totalUses perf4)"
    "lastAnalyzed perf4 = nowIso clk"
    by (simp_all add: perf4_def perf2_def)
  have "readable st'" "versionsDir st' = versionsDir st"
    by (simp_all add: readable_def st'_def)
  then show ?thesis
    using run old new base vals by auto
qed

lemma recordPromptOutcome_step:
  assumes "readable st" and "versionTemplate st vid = Some T"
    and "T \<notin> set objectPrototypeMembers"
  shows "\<exists>st' perf. recordPromptOutcome clk st vid oc fb = (Inr (), st')
      \<and> readable st'
      \<and> (\<forall>w. versionTemplate st' w = versionTemplate st w)
      \<and> (\<forall>U. U \<noteq> T \<longrightarrow> performanceOf st' U = performanceOf st U)
      \<and> performanceOf st' T = Some perf
      \<and> totalUses perf = Suc (case performanceOf st T of None \<Rightarrow> 0 | Some p \<Rightarrow> totalUses p)
      \<and> successCount perf = (case performanceOf st T of None \<Rightarrow> 0 | Some p \<Rightarrow> successCount p)
                               + (if oc = Success then 1 else 0)
      \<and> failureCount perf = (case performanceOf st T of None \<Rightarrow> 0 | Some p \<Rightarrow> failureCount p)
                               + (if oc = Failure then 1 else 0)
      \<and> averageRating perf = of_nat (successCount perf) / of_nat (totalUses perf)
      \<and> lastAnalyzed perf = nowIso clk"
proof -
  from assms(2) obtain v where v: "versionFile st (vid @ ''.json'') = Some (Stored v)"
    and T: "pv_templateId v = T"
    by (auto simp: versionTemplate_def split: option.splits stored.splits)
  define v' where "v' = v\<lparr>pv_metadata := (pv_metadata v)\<lparr>vm_outcome := oc, feedback := fb\<rparr>\<rparr>"
  define st1 where
    "st1 = st\<lparr>versionsDir := Some ((case versionsDir st of None \<Rightarrow> Map.empty | Some d \<Rightarrow> d)
                                      (vid @ ''.json'' \<mapsto> Stored v'))\<rparr>"
  have run: "recordPromptOutcome clk st vid oc fb = updateTemplatePerformance clk st1 T oc"
    using v T by (simp add: recordPromptOutcome_def Let_def st1_def v'_def)
  have r1: "readable st1" using assms(1) by (simp add: readable_def st1_def)
  have p1: "performanceOf st1 U = performanceOf st U" for U
    by (simp add: performanceOf_def st1_def)
  have t1: "versionTemplate st1 w = versionTemplate st w" for w
    using v T by (auto simp: versionTemplate_def versionFile_def st1_def v'_def
                       split: option.splits stored.splits)
  from updateTemplatePerformance_step [OF r1 assms(3), of clk oc]
  obtain st' perf where s: "updateTemplatePerformance clk st1 T oc = (Inr (), st')"
      "readable st'" "versionsDir st' = versionsDir st1"
      "\<forall>U. U \<noteq> T \<longrightarrow> performanceOf st' U = performanceOf st1 U"
      "performanceOf st' T = Some perf"
      "totalUses perf = Suc (case performanceOf st1 T of None \<Rightarrow> 0 | Some p \<Rightarrow> totalUses p)"
      "successCount perf = (case performanceOf st1 T of None \<Rightarrow> 0 | Some p \<Rightarrow> successCount p)
                               + (if oc = Success then 1 else 0)"
      "failureCount perf = (case performanceOf st1 T of None \<Rightarrow> 0 | Some p \<Rightarrow> failureCount p)
                               + (if oc = Failure then 1 else 0)"
      "averageRating perf = of_nat (successCount perf) / of_nat (totalUses perf)"
      "lastAnalyzed perf = nowIso clk"
    by blast
  have t2: "versionTemplate st' w = versionTemplate st w" for w
    using s(3) t1 [of w] by (simp add: versionTemplate_def versionFile_def)
  show ?thesis
    using run s t2 by (simp add: p1)
qed

lemma recordOutcomes_tally:
  assumes "readable st"
    and "\<forall>c \<in> set calls. \<exists>U. versionTemplate st (oc_versionId c) = Some U
                              \<and> U \<notin> set objectPrototypeMembers"
  shows "\<exists>st'. recordOutcomes st calls = (Inr (), st')
      \<and> (callsFor st T calls = [] \<longrightarrow> performanceOf st' T = performanceOf st T)
      \<and> (callsFor st T calls \<noteq> [] \<longrightarrow>
           (\<exists>perf. performanceOf st' T = Some perf
              \<and> totalUses perf = (case performanceOf st T of None \<Rightarrow> 0 | Some p \<Rightarrow> totalUses p)
                                   + length (callsFor st T calls)
              \<and> successCount perf = (case performanceOf st T of None \<Rightarrow> 0 | Some p \<Rightarrow> successCount p)
                   + length (filter (\<lambda>c. oc_outcome c = Success) (callsFor st T calls))
              \<and> failureCount perf = (case performanceOf st T of None \<Rightarrow> 0 | Some p \<Rightarrow> failureCount p)
                   + length (filter (\<lambda>c. oc_outcome c = Failure) (callsFor st T calls))
              \<and> averageRating perf = of_nat (successCount perf) / of_nat (totalUses perf)
              \<and> lastAnalyzed perf = nowIso (oc_clock (last (callsFor st T calls)))))"
  using assms
proof (induction calls arbitrary: st)
  case Nil
  then show ?case by (simp add: callsFor_def)
next
  case (Cons c cs)
  from Cons.prems(2) obtain U where U: "versionTemplate st (oc_versionId c) = Some U"
    and own: "U \<notin> set objectPrototypeMembers"
    by auto
  from recordPromptOutcome_step [OF Cons.prems(1) U own,
      of "oc_clock c" "oc_outcome c" "oc_feedback c"]
  obtain st1 perf1 where s:
      "recordPromptOutcome (oc_clock c) st (oc_versionId c) (oc_outcome c) (oc_feedback c) = (Inr (), st1)"
      "readable st1"
      "\<forall>w. versionTemplate st1 w = versionTemplate st w"
      "\<forall>V. V \<noteq> U \<longrightarrow> performanceOf st1 V = performanceOf st V"
      "performanceOf st1 U = Some perf1"
      "totalUses perf1 = Suc (case performanceOf st U of None \<Rightarrow> 0 | Some p \<Rightarrow> totalUses p)"
      "successCount perf1 = (case performanceOf st U of None \<Rightarrow> 0 | Some p \<Rightarrow> successCount p)
                               + (if oc_outcome c = Success then 1 else 0)"
      "failureCount perf1 = (case performanceOf st U of None \<Rightarrow> 0 | Some p \<Rightarrow> failureCount p)
                               + (if oc_outcome c = Failure then 1 else 0)"
      "averageRating perf1 = of_nat (successCount perf1) / of_nat (totalUses perf1)"
      "lastAnalyzed perf1 = nowIso (oc_clock c)"
    by blast
  have same: "callsFor st1 T cs = callsFor st T cs"
    using s(3) by (simp add: callsFor_def)
  have refs: "\<forall>c \<in> set cs. \<exists>U. versionTemplate st1 (oc_versionId c) = Some U
                              \<and> U \<notin> set objectPrototypeMembers"
    using Cons.prems(2) s(3) by simp
  from Cons.IH [OF s(2) refs]
  obtain st' where r: "recordOutcomes st1 cs = (Inr (), st')"
      "callsFor st T cs = [] \<longrightarrow> performanceOf st' T = performanceOf st1 T"
      "callsFor st T cs \<noteq> [] \<longrightarrow>
           (\<exists>perf. performanceOf st' T = Some perf
              \<and> totalUses perf = (case performanceOf st1 T of None \<Rightarrow> 0 | Some p \<Rightarrow> totalUses p)
                                   + length (callsFor st T cs)
              \<and> successCount perf = (case performanceOf st1 T of None \<Rightarrow> 0 | Some p \<Rightarrow> successCount p)
                   + length (filter (\<lambda>c. oc_outcome c = Success) (callsFor st T cs))
              \<and> failureCount perf = (case performanceOf st1 T of None \<Rightarrow> 0 | Some p \<Rightarrow> failureCount p)
                   + length (filter (\<lambda>c. oc_outcome c = Failure) (callsFor st T cs))
              \<and> averageRating perf = of_nat (successCount perf) / of_nat (totalUses perf)
              \<and> lastAnalyzed perf = nowIso (oc_clock (last (callsFor st T cs))))"
    unfolding same by blast
  have run: "recordOutcomes st (c # cs) = (Inr (), st')"
    using s(1) r(1) by simp
  show ?case
  proof (cases "U = T")
    case False
    then have mine: "callsFor st T (c # cs) = callsFor st T cs"
      using U by (simp add: callsFor_def)
    have "performanceOf st1 T = performanceOf st T"
      using False s(4) by simp
    then show ?thesis
      using run r(2,3) unfolding mine by auto
  next
    case True
    then have mine: "callsFor st T (c # cs) = c # callsFor st T cs"
      using U by (simp add: callsFor_def)
    show ?thesis
    proof (cases "callsFor st T cs = []")
      case True
      then show ?thesis
        using run r(2) s(5-10) \<open>U = T\<close> unfolding mine by auto
    next
      case False
      then show ?thesis
        using run r(3) s(5-10) \<open>U = T\<close> unfolding mine by auto
    qed
  qed
qed

text \<open>
  For a template whose id is not the name of a member of \<open>Object.prototype\<close> the
  accounting holds. Start from a store with no performance record for the template, and
  make any sequence of \<open>recordPromptOutcome\<close> calls that each name an existing version
  of such a template; let \<open>N\<close> be the number of those calls whose version belongs to the
  template, at least one. Then no call fails, and afterwards the template's record has
  \<open>totalUses\<close> equal to \<open>N\<close>, \<open>successCount\<close> equal to the number of those calls with
  outcome \<open>success\<close> and \<open>failureCount\<close> equal to the number with outcome \<open>failure\<close>
  (a \<open>partial\<close> outcome is counted in neither), so that their sum is at most \<open>N\<close>;
  \<open>averageRating\<close> is \<open>successCount / totalUses\<close> and \<open>lastAnalyzed\<close> is the clock
  value of the last of those calls.
\<close>

lemma recordOutcomes_accounting:
  assumes "readable st"
    and "performanceOf st T = None"
    and "\<forall>c \<in> set calls. \<exists>U. versionTemplate st (oc_versionId c) = Some U
                              \<and> U \<notin> set objectPrototypeMembers"
    and "callsFor st T calls \<noteq> []"
  shows "\<exists>st' perf. recordOutcomes st calls = (Inr (), st')
      \<and> performanceOf st' T = Some perf
      \<and> totalUses perf = length (callsFor st T calls)
      \<and> successCount perf = length (filter (\<lambda>c. oc_outcome c = Success) (callsFor st T calls))
      \<and> failureCount perf = length (filter (\<lambda>c. oc_outcome c = Failure) (callsFor st T calls))
      \<and> successCount perf + failureCount perf \<le> totalUses perf
      \<and> averageRating perf = of_nat (successCount perf) / of_nat (totalUses perf)
      \<and> lastAnalyzed perf = nowIso (oc_clock (last (callsFor st T calls)))"
proof -
  from recordOutcomes_tally [OF assms(1,3), of T] assms(2,4)
  obtain st' perf where r: "recordOutcomes st calls = (Inr (), st')"
      "performanceOf st' T = Some perf"
      "totalUses perf = length (callsFor st T calls)"
      "successCount perf = length (filter (\<lambda>c. oc_outcome c = Success) (callsFor st T calls))"
      "failureCount perf = length (filter (\<lambda>c. oc_outcome c = Failure) (callsFor st T calls))"
      "averageRating perf = of_nat (successCount perf) / of_nat (totalUses perf)"
      "lastAnalyzed perf = nowIso (oc_clock (last (callsFor st T calls)))"
    by auto
  have "length (filter (\<lambda>c. oc_outcome c = Success) xs)
          + length (filter (\<lambda>c. oc_outcome c = Failure) xs) \<le> length xs" for xs :: "outcomeCall list"
    by (induction xs) auto
  then have "successCount perf + failureCount perf \<le> totalUses perf"
    using r(3,4,5) by simp
  then show ?thesis
    using r by blast
qed

text \<open>
  Three outcomes (success, partial, failure) recorded for one version of \<open>bug-fix\<close>.
\<close>

lemma recordOutcomes_accounting_example:
  "\<exists>st' perf. recordOutcomes storeWithVersion threeCalls = (Inr (), st')
        \<and> performanceOf st' ''bug-fix'' = Some perf
        \<and> totalUses perf = 3 \<and> successCount perf = 1 \<and> failureCount perf = 1
        \<and> averageRating perf = 1 / 3
        \<and> lastAnalyzed perf = ''2023-11-14T22:23:20.000Z''"
proof -
  have v: "versionTemplate storeWithVersion ''bug-fix-1700000000000'' = Some ''bug-fix''"
    by (simp add: versionTemplate_def versionFile_def storeWithVersion_def exampleVersion_def)
  have a: "readable storeWithVersion"
    by (simp add: readable_def storeWithVersion_def initializePrompts_def emptyStore_def)
  have b: "performanceOf storeWithVersion ''bug-fix'' = None"
    by (simp add: performanceOf_def storeWithVersion_def initializePrompts_def emptyStore_def)
  have own: "''bug-fix'' \<notin> set objectPrototypeMembers"
    by (simp add: objectPrototypeMembers_def)
  have c: "\<forall>c \<in> set threeCalls. \<exists>U. versionTemplate storeWithVersion (oc_versionId c) = Some U
                                   \<and> U \<notin> set objectPrototypeMembers"
    using v own by (simp add: threeCalls_def)
  have d: "callsFor storeWithVersion ''bug-fix'' threeCalls = threeCalls"
    using v by (simp add: callsFor_def threeCalls_def)
  have e: "callsFor storeWithVersion ''bug-fix'' threeCalls \<noteq> []"
    unfolding d by (simp add: threeCalls_def)
  have f: "length threeCalls = 3"
    "length (filter (\<lambda>c. oc_outcome c = Success) threeCalls) = 1"
    "length (filter (\<lambda>c. oc_outcome c = Failure) threeCalls) = 1"
    "nowIso (oc_clock (last threeCalls)) = ''2023-11-14T22:23:20.000Z''"
    by (simp_all add: threeCalls_def laterClock_def)
  from recordOutcomes_accounting [OF a b c e]
  obtain st' perf where r: "recordOutcomes storeWithVersion threeCalls = (Inr (), st')"
      "performanceOf st' ''bug-fix'' = Some perf"
      "totalUses perf = 3" "successCount perf = 1" "failureCount perf = 1"
      "averageRating perf = of_nat (successCount perf) / of_nat (totalUses perf)"
      "lastAnalyzed perf = ''2023-11-14T22:23:20.000Z''"
    unfolding d f by auto
  have "averageRating perf = 1 / 3"
    using r(3,4,6) by simp
  then show ?thesis
    using r by blast
qed

text \<open>
  Claim C3 (feedback accounting). The claim is stated for every template, and the code
  misses it for a template whose id names a member of \<open>Object.prototype\<close>. One outcome
  recorded for a version of the template \<open>constructor\<close>: the call returns normally, the
  outcome and the feedback are stored in the version, and the performance file is
  written as the empty object, so that the template has no performance record where
  the claim has one with \<open>totalUses\<close> equal to 1.
\<close>

theorem recordPromptOutcome_inherited_member:
  "versionTemplate constructorStore ''constructor-1700000000000'' = Some ''constructor''
   \<and> performanceFile constructorStore = None
   \<and> fst (recordPromptOutcome exampleClock constructorStore ''constructor-1700000000000''
             Success ''Worked perfectly'') = Inr ()
   \<and> versionFile (snd (recordPromptOutcome exampleClock constructorStore
                         ''constructor-1700000000000'' Success ''Worked perfectly''))
        ''constructor-1700000000000.json''
       = Some (Stored (constructorVersion\<lparr>pv_metadata :=
                         (pv_metadata constructorVersion)\<lparr>feedback := ''Worked perfectly''\<rparr>\<rparr>))
   \<and> performanceFile (snd (recordPromptOutcome exampleClock constructorStore
                             ''constructor-1700000000000'' Success ''Worked perfectly''))
       = Some (Stored [])
   \<and> performanceOf (snd (recordPromptOutcome exampleClock constructorStore
                           ''constructor-1700000000000'' Success ''Worked perfectly''))
        ''constructor'' = None
   \<and> analyzePromptPerformance (snd (recordPromptOutcome exampleClock constructorStore
                                      ''constructor-1700000000000'' Success ''Worked perfectly''))
       = Inr []"
  by (simp add: versionTemplate_def versionFile_def constructorStore_def constructorVersion_def
        emptyStore_def recordPromptOutcome_def updateTemplatePerformance_def
        objectPrototypeMembers_def performanceOf_def analyzePromptPerformance_def Let_def)

subsection \<open>Pattern frequencies and build determinism\<close>

subsubsection \<open>Decimal rendering is injective\<close>

lemma digitValue_digitChar: "d < 10 \<Longrightarrow> digitValue (digitChar d) = d"
proof -
  assume "d < 10"
  then have "d \<in> {0, 1, 2, 3, 4, 5, 6, 7, 8, 9}" by auto
  then show ?thesis by (auto simp: digitValue_def digitChar_def)
qed

lemma readNat_snoc: "readNat (s @ [c]) = 10 * readNat s + digitValue c"
  by (simp add: readNat_def)

lemma readNat_toString_nat: "readNat (toString_nat n) = n"
proof (induction n rule: toString_nat.induct)
  case (1 n)
  show ?case
  proof (cases "n < 10")
    case True
    then show ?thesis
      by (simp add: toString_nat.simps [of n] readNat_def digitValue_digitChar)
  next
    case False
    then have "readNat (toString_nat n) = 10 * (n div 10) + n mod 10"
      using 1 by (simp add: toString_nat.simps [of n] readNat_snoc digitValue_digitChar)
    then show ?thesis by simp
  qed
qed

lemma toString_nat_inj: "toString_nat m = toString_nat n \<Longrightarrow> m = n"
  by (metis readNat_toString_nat)

lemma digitChar_not_dash: "digitChar d \<noteq> CHR ''-''" "CHR ''-'' \<noteq> digitChar d"
proof -
  define m where "m = d mod 10"
  then have "m < 10" by simp
  then have "m \<in> {0, 1, 2, 3, 4, 5, 6, 7, 8, 9}" by auto
  then have "''0123456789'' ! m \<noteq> CHR ''-''" by auto
  then show "digitChar d \<noteq> CHR ''-''" "CHR ''-'' \<noteq> digitChar d"
    by (auto simp: digitChar_def m_def)
qed

lemma toString_nat_no_dash: "CHR ''-'' \<notin> set (toString_nat n)"
proof (induction n rule: toString_nat.induct)
  case (1 n)
  then show ?case
    by (cases "n < 10") (auto simp: toString_nat.simps [of n] digitChar_not_dash)
qed

lemma takeWhile_until:
  "c \<notin> set ds \<Longrightarrow> takeWhile (\<lambda>x. x \<noteq> c) (ds @ c # zs) = ds"
  by (induction ds) auto

lemma digits_before_dash:
  assumes "toString_nat m @ CHR ''-'' # xs = toString_nat n @ CHR ''-'' # ys"
  shows "m = n \<and> xs = ys"
proof -
  have "takeWhile (\<lambda>c. c \<noteq> CHR ''-'') (toString_nat k @ CHR ''-'' # zs) = toString_nat k" for k zs
    using toString_nat_no_dash [of k] by (rule takeWhile_until)
  then have "toString_nat m = toString_nat n"
    using assms by metis
  then show ?thesis
    using assms toString_nat_inj by auto
qed

lemma functionPatternId_inj:
  "functionPatternId m a = functionPatternId n b \<longleftrightarrow> m = n \<and> a = b"
proof
  assume "functionPatternId m a = functionPatternId n b"
  then have "toString_nat m @ CHR ''-'' # (''params-'' @ (if a then ''async'' else ''sync''))
           = toString_nat n @ CHR ''-'' # (''params-'' @ (if b then ''async'' else ''sync''))"
    by (simp add: functionPatternId_def)
  from digits_before_dash [OF this] show "m = n \<and> a = b"
    by (auto split: if_splits)
qed simp

lemma patternKey_function:
  "patternKey node = Some (functionPatternId n a) \<longleftrightarrow> namedFunction n a node"
proof (cases node)
  case (FunctionDeclaration ident ps isAsync)
  then show ?thesis
    by (cases ident) (auto simp: functionPatternId_inj)
next
  case (ClassDeclaration ident body)
  then show ?thesis
    by (cases ident) (simp_all add: functionPatternId_def)
next
  case (ImportDeclaration source specifiers)
  then show ?thesis
    by (simp add: functionPatternId_def)
qed

subsubsection \<open>Counting in the pattern registry\<close>

lemma freqIn_record_pattern:
  "cp_frequency fresh = 1 \<Longrightarrow>
   freqIn (record_pattern now file fresh pats) k
     = freqIn pats k + (if cp_id fresh = k then 1 else 0)"
  by (auto simp: record_pattern_def freqIn_def update_conv' split: option.splits)

lemma freqIn_visit:
  "freqIn (visit now file node pats) k
     = freqIn pats k + (if patternKey node = Some k then 1 else 0)"
proof (cases node)
  case (FunctionDeclaration ident ps isAsync)
  then show ?thesis
    by (cases ident) (simp_all add: extractFunctionPattern_def Let_def freqIn_record_pattern)
next
  case (ClassDeclaration ident body)
  then show ?thesis
    by (cases ident) (simp_all add: extractClassPattern_def Let_def freqIn_record_pattern)
next
  case (ImportDeclaration source specifiers)
  then show ?thesis
    by (simp add: extractImportPattern_def Let_def freqIn_record_pattern)
qed

lemma freqIn_traverse:
  "freqIn (traverse readings i file ns pats) k
     = freqIn pats k + length (filter (\<lambda>n. patternKey n = Some k) ns)"
  by (induction ns arbitrary: i pats) (simp_all add: freqIn_visit)

lemma freqIn_extractLoop:
  "freqIn (extractLoop readings i files pats) k
     = freqIn pats k + length (filter (\<lambda>n. patternKey n = Some k) (parsedNodes files))"
proof (induction files arbitrary: i pats)
  case Nil
  then show ?case by (simp add: parsedNodes_def)
next
  case (Cons f files)
  obtain path parsed where f: "f = (path, parsed)" by (cases f)
  show ?case
    using Cons.IH by (cases parsed) (simp_all add: f parsedNodes_def freqIn_traverse)
qed

subsubsection \<open>Every entry of the registry is stored under its own id, once\<close>

lemma set_update_subset: "set (AList.update k v al) \<subseteq> insert (k, v) (set al)"
  by (induction al) auto

lemma keyed_update:
  assumes "keyed pats" and "cp_id v = k"
  shows "keyed (AList.update k v pats)"
  using assms set_update_subset [of k v pats]
  by (auto simp: keyed_def distinct_update)

lemma keyed_record_pattern: "keyed pats \<Longrightarrow> keyed (record_pattern now file fresh pats)"
proof -
  assume k: "keyed pats"
  show ?thesis
  proof (cases "map_of pats (cp_id fresh)")
    case None
    then show ?thesis using k by (simp add: record_pattern_def keyed_update)
  next
    case (Some existing)
    then have "(cp_id fresh, existing) \<in> set pats" by (rule map_of_SomeD)
    then have "cp_id existing = cp_id fresh" using k by (auto simp: keyed_def)
    then show ?thesis using k Some by (simp add: record_pattern_def keyed_update)
  qed
qed

lemma keyed_visit: "keyed pats \<Longrightarrow> keyed (visit now file node pats)"
proof (cases node)
  case (FunctionDeclaration ident ps isAsync)
  assume "keyed pats"
  then show ?thesis using FunctionDeclaration
    by (cases ident) (simp_all add: extractFunctionPattern_def Let_def keyed_record_pattern)
next
  case (ClassDeclaration ident body)
  assume "keyed pats"
  then show ?thesis using ClassDeclaration
    by (cases ident) (simp_all add: extractClassPattern_def Let_def keyed_record_pattern)
next
  case (ImportDeclaration source specifiers)
  assume "keyed pats"
  then show ?thesis using ImportDeclaration
    by (simp add: extractImportPattern_def Let_def keyed_record_pattern)
qed

lemma keyed_traverse: "keyed pats \<Longrightarrow> keyed (traverse readings i file ns pats)"
  by (induction ns arbitrary: i pats) (simp_all add: keyed_visit)

lemma keyed_extractLoop: "keyed pats \<Longrightarrow> keyed (extractLoop readings i files pats)"
proof (induction files arbitrary: i pats)
  case Nil
  then show ?case by simp
next
  case (Cons f files)
  obtain path parsed where f: "f = (path, parsed)" by (cases f)
  show ?case
    using Cons by (cases parsed) (simp_all add: f keyed_traverse)
qed

lemma find_by_id:
  "keyed pats \<Longrightarrow> find (\<lambda>p. cp_id p = k) (map snd pats) = map_of pats k"
  by (induction pats) (auto simp: keyed_def)

lemma ids_distinct: "keyed pats \<Longrightarrow> distinct (map cp_id (map snd pats))"
proof -
  assume k: "keyed pats"
  then have "\<forall>x \<in> set pats. cp_id (snd x) = fst x"
    by (auto simp: keyed_def)
  then have eq: "map (cp_id \<circ> snd) pats = map fst pats"
    by simp
  have "distinct (map fst pats)"
    using k by (simp add: keyed_def)
  then show ?thesis by (simp only: map_map eq)
qed

lemma find_same_set:
  assumes "\<forall>x \<in> set xs. \<forall>y \<in> set xs. P x \<and> P y \<longrightarrow> x = y" and "set xs = set ys"
  shows "find P xs = find P ys"
proof (cases "find P xs")
  case None
  then have "find P ys = None"
    using assms(2) by (simp add: find_None_iff)
  then show ?thesis using None by simp
next
  case (Some x)
  then have x: "x \<in> set xs" "P x"
    by (auto simp: find_Some_iff)
  then obtain y where y: "find P ys = Some y"
    using assms(2) by (cases "find P ys") (auto simp: find_None_iff)
  then have "y \<in> set ys" "P y"
    by (auto simp: find_Some_iff)
  then have "y = x" using assms x by auto
  then show ?thesis using Some y by simp
qed

lemma frequencyOf_sortByFrequency:
  assumes "distinct (map cp_id ps)"
  shows "frequencyOf k (sortByFrequency ps) = frequencyOf k ps"
proof -
  have "inj_on cp_id (set ps)"
    using assms by (simp add: distinct_map)
  then have "\<forall>x \<in> set (sortByFrequency ps). \<forall>y \<in> set (sortByFrequency ps).
               cp_id x = k \<and> cp_id y = k \<longrightarrow> x = y"
    by (auto simp: sortByFrequency_def inj_on_def)
  then have "find (\<lambda>p. cp_id p = k) (sortByFrequency ps) = find (\<lambda>p. cp_id p = k) ps"
    by (rule find_same_set) (simp add: sortByFrequency_def)
  then show ?thesis by (simp add: frequencyOf_def)
qed

lemma frequencyOf_extractPatterns:
  "frequencyOf k (extractPatterns readings files)
     = length (filter (\<lambda>n. patternKey n = Some k) (parsedNodes files))"
proof -
  have k: "keyed (extractLoop readings 0 files [])"
    by (rule keyed_extractLoop) (simp add: keyed_def)
  have "frequencyOf k (extractPatterns readings files) = freqIn (extractLoop readings 0 files []) k"
    by (simp add: frequencyOf_def extractPatterns_def find_by_id [OF k] freqIn_def)
  then show ?thesis
    using freqIn_extractLoop [of readings 0 files "[]" k] by (simp add: freqIn_def)
qed

lemma frequencyOf_sorted_extractPatterns:
  "frequencyOf k (sortByFrequency (extractPatterns readings files))
     = length (filter (\<lambda>n. patternKey n = Some k) (parsedNodes files))"
proof -
  have "keyed (extractLoop readings 0 files [])"
    by (rule keyed_extractLoop) (simp add: keyed_def)
  then have "distinct (map cp_id (extractPatterns readings files))"
    unfolding extractPatterns_def by (rule ids_distinct)
  then show ?thesis
    by (simp add: frequencyOf_sortByFrequency frequencyOf_extractPatterns)
qed

lemma buildContext_result:
  assumes "buildContext clk readings proj st = (Inr context, st')"
  shows "patterns context = sortByFrequency (extractPatterns readings (sourceFiles proj))
       \<and> generateCodebaseFingerprint proj = Inr (codebaseFingerprint context)
       \<and> compressedFile st' = Some (Stored context)"
  using assms
  by (auto simp: buildContext_def Let_def split: sum.splits)

lemma buildContext_again:
  assumes "buildContext clk readings proj st = (Inr context, st')"
  shows "\<exists>context2 st2. buildContext clk2 readings2 proj st1 = (Inr context2, st2)"
proof -
  from assms obtain fp where "generateCodebaseFingerprint proj = Inr fp"
    by (auto simp: buildContext_def Let_def split: sum.splits)
  moreover from assms obtain ds where "extractDecisions clk proj = Inr ds"
    by (auto simp: buildContext_def Let_def split: sum.splits)
  then obtain ds2 where "extractDecisions clk2 proj = Inr ds2"
    by (auto simp: extractDecisions_def extractImplicitDecisions_def Let_def
             split: sum.splits option.splits stored.splits)
  ultimately show ?thesis
    by (simp add: buildContext_def Let_def)
qed

lemma functionPatternId_examples:
  "functionPatternId 2 False = ''function-2-params-sync''"
  "functionPatternId (Suc 0) True = ''function-1-params-async''"
  by (simp_all add: functionPatternId_def toString_nat.simps [of 2]
        toString_nat.simps [of "Suc 0"] digitChar_def)

text \<open>
  Claim C6 (pattern frequency counting), amended. For every build, the frequency stored
  for the signature \<open>function-n-params-sync\<close> (or \<open>-async\<close>) equals the number of
  function declarations with an identifier, \<open>n\<close> parameters and that synchrony in the
  files that parsed; it is 0, with no entry, when there is none. Files that fail to
  parse contribute nothing. This holds for the list \<open>extractPatterns\<close> returns and for
  the patterns of the snapshot \<open>buildContext\<close> persists.
\<close>

theorem extractPatterns_function_frequency:
  "frequencyOf (functionPatternId n a) (extractPatterns readings files)
     = length (filter (namedFunction n a) (parsedNodes files))
   \<and> (buildContext clk readings proj st = (Inr context, st')
        \<longrightarrow> frequencyOf (functionPatternId n a) (patterns context)
              = length (filter (namedFunction n a) (parsedNodes (sourceFiles proj))))"
  using buildContext_result [of clk readings proj st "context" "st'"]
  by (auto simp: frequencyOf_extractPatterns frequencyOf_sorted_extractPatterns patternKey_function)

text \<open>
  Scenario A: three synchronous functions of two parameters and one asynchronous
  function of one parameter, in two files that parse, beside one file that does not.
\<close>

theorem extractPatterns_function_frequency_witness:
  "frequencyOf ''function-2-params-sync'' (extractPatterns fixedReadings scenarioTree) = 3
   \<and> frequencyOf ''function-1-params-async'' (extractPatterns fixedReadings scenarioTree) = 1"
proof -
  have "length (filter (namedFunction 2 False) (parsedNodes scenarioTree)) = 3"
    "length (filter (namedFunction (Suc 0) True) (parsedNodes scenarioTree)) = 1"
    by (simp_all add: parsedNodes_def scenarioTree_def)
  then show ?thesis
    using extractPatterns_function_frequency [of 2 False fixedReadings scenarioTree]
      extractPatterns_function_frequency [of "Suc 0" True fixedReadings scenarioTree]
    by (simp add: functionPatternId_examples)
qed

text \<open>
  The claim as written counts every declaration that matches the signature. A function
  declaration without an identifier (\<open>export default function (req, res) { ... }\<close>) has
  two parameters and is synchronous; the extractor returns at \<open>if (!node.id) return\<close>
  and stores nothing for it.
\<close>

theorem extractPatterns_default_export_counterexample:
  "length (filter (anyFunction 2 False) (parsedNodes defaultExportTree)) = 1
   \<and> extractPatterns fixedReadings defaultExportTree = []
   \<and> frequencyOf ''function-2-params-sync'' (extractPatterns fixedReadings defaultExportTree) = 0"
  by (simp add: parsedNodes_def defaultExportTree_def extractPatterns_def
        extractFunctionPattern_def frequencyOf_def)

lemma buildContext_succeeds:
  assumes "packageJson proj = Some (Stored pkg)"
  shows "\<exists>context st'. buildContext clk readings proj st = (Inr context, st')"
  using assms
  by (simp add: buildContext_def Let_def extractDecisions_def extractImplicitDecisions_def
        generateCodebaseFingerprint_def)

lemma fingerprintOf_permuted:
  assumes "mset deps = mset deps'" and "mset dev = mset dev'"
  shows "fingerprintOf \<lparr>dependencies = Some deps, devDependencies = Some dev\<rparr>
       = fingerprintOf \<lparr>dependencies = Some deps', devDependencies = Some dev'\<rparr>"
proof -
  have "sort (map fst xs) = sort (map fst ys)" if "mset xs = mset ys"
    for xs ys :: "(string \<times> string) list"
  proof -
    have "mset (map fst xs) = mset (map fst ys)"
      using that by (metis mset_map)
    then show ?thesis
      by (metis sorted_list_of_multiset_mset)
  qed
  from this [OF assms(1)] this [OF assms(2)] show ?thesis
    by (simp add: fingerprintOf_def objectKeys_def)
qed

text \<open>
  Claim C8 (build determinism). After a build that succeeds, a second build of the same
  project, at another time and on top of the snapshot the first one stored, succeeds
  too, stores the same frequency for every signature and the same fingerprint. The
  fingerprint of a manifest does not change when the entries of \<open>dependencies\<close> and of
  \<open>devDependencies\<close> are permuted.
\<close>

theorem buildContext_deterministic:
  assumes "buildContext clk readings proj st = (Inr context, st')"
  shows "(\<exists>context2 st2. buildContext clk2 readings2 proj st' = (Inr context2, st2)
            \<and> (\<forall>signature. frequencyOf signature (patterns context2)
                              = frequencyOf signature (patterns context))
            \<and> codebaseFingerprint context2 = codebaseFingerprint context)
       \<and> (\<forall>deps deps' dev dev'. mset deps = mset deps' \<and> mset dev = mset dev'
            \<longrightarrow> fingerprintOf \<lparr>dependencies = Some deps, devDependencies = Some dev\<rparr>
                = fingerprintOf \<lparr>dependencies = Some deps', devDependencies = Some dev'\<rparr>)"
proof
  from buildContext_again [OF assms, of clk2 readings2 "st'"]
  obtain context2 st2 where b: "buildContext clk2 readings2 proj st' = (Inr context2, st2)"
    by blast
  note r1 = buildContext_result [OF assms] and r2 = buildContext_result [OF b]
  have "frequencyOf signature (patterns context2) = frequencyOf signature (patterns context)"
    for signature
    using r1 r2 by (simp add: frequencyOf_sorted_extractPatterns)
  moreover have "codebaseFingerprint context2 = codebaseFingerprint context"
    using r1 r2 by simp
  ultimately show "\<exists>context2 st2. buildContext clk2 readings2 proj st' = (Inr context2, st2)
            \<and> (\<forall>signature. frequencyOf signature (patterns context2)
                              = frequencyOf signature (patterns context))
            \<and> codebaseFingerprint context2 = codebaseFingerprint context"
    using b by blast
next
  show "\<forall>deps deps' dev dev'. mset deps = mset deps' \<and> mset dev = mset dev'
            \<longrightarrow> fingerprintOf \<lparr>dependencies = Some deps, devDependencies = Some dev\<rparr>
                = fingerprintOf \<lparr>dependencies = Some deps', devDependencies = Some dev'\<rparr>"
    using fingerprintOf_permuted by blast
qed

text \<open>
  Two builds of the scenario project, and its manifest with both entry lists reordered.
\<close>

theorem buildContext_deterministic_witness:
  "\<exists>context st' context2 st2.
      buildContext exampleClock fixedReadings scenarioProject emptyStore = (Inr context, st')
    \<and> buildContext laterClock laterReadings scenarioProject st' = (Inr context2, st2)
    \<and> frequencyOf ''function-2-params-sync'' (patterns context2)
        = frequencyOf ''function-2-params-sync'' (patterns context)
    \<and> codebaseFingerprint context2 = codebaseFingerprint context
    \<and> codebaseFingerprint context = ''commander,react|typescript,vitest''
    \<and> fingerprintOf \<lparr>dependencies = Some [(''commander'', ''^11.0.0''), (''react'', ''^18.2.0'')],
                      devDependencies = Some [(''typescript'', ''^5.0.0''), (''vitest'', ''^1.0.0'')]\<rparr>
        = fingerprintOf scenarioManifest"
proof -
  have p: "packageJson scenarioProject = Some (Stored scenarioManifest)"
    by (simp add: scenarioProject_def)
  from buildContext_succeeds [OF p, of exampleClock fixedReadings emptyStore]
  obtain ctx st1 where
    b: "buildContext exampleClock fixedReadings scenarioProject emptyStore = (Inr ctx, st1)"
    by blast
  have m: "mset [(''commander'', ''^11.0.0''), (''react'', ''^18.2.0'')]
             = mset [(''react'', ''^18.2.0''), (''commander'', ''^11.0.0'')]
           \<and> mset [(''typescript'', ''^5.0.0''), (''vitest'', ''^1.0.0'')]
             = mset [(''vitest'', ''^1.0.0''), (''typescript'', ''^5.0.0'')]"
    by (simp add: add_mset_commute)
  have f: "codebaseFingerprint ctx = ''commander,react|typescript,vitest''"
    using buildContext_result [OF b]
    by (simp add: generateCodebaseFingerprint_def scenarioProject_def scenarioManifest_def
          fingerprintOf_def objectKeys_def)
  note d = buildContext_deterministic [OF b, of laterClock laterReadings]
  from d obtain ctx2 st2 where
    c: "buildContext laterClock laterReadings scenarioProject st1 = (Inr ctx2, st2)"
      "frequencyOf ''function-2-params-sync'' (patterns ctx2)
         = frequencyOf ''function-2-params-sync'' (patterns ctx)"
      "codebaseFingerprint ctx2 = codebaseFingerprint ctx"
    by blast
  from d m have
    "fingerprintOf \<lparr>dependencies = Some [(''commander'', ''^11.0.0''), (''react'', ''^18.2.0'')],
                      devDependencies = Some [(''typescript'', ''^5.0.0''), (''vitest'', ''^1.0.0'')]\<rparr>
       = fingerprintOf \<lparr>dependencies = Some [(''react'', ''^18.2.0''), (''commander'', ''^11.0.0'')],
                      devDependencies = Some [(''vitest'', ''^1.0.0''), (''typescript'', ''^5.0.0'')]\<rparr>"
    by blast
  then have
    "fingerprintOf \<lparr>dependencies = Some [(''commander'', ''^11.0.0''), (''react'', ''^18.2.0'')],
                      devDependencies = Some [(''typescript'', ''^5.0.0''), (''vitest'', ''^1.0.0'')]\<rparr>
       = fingerprintOf scenarioManifest"
    by (simp only: scenarioManifest_def)
  then show ?thesis
    using b c f by blast
qed

subsection \<open>Filling a template\<close>


text \<open>
  \<open>startsWith\<close> character by character, for evaluating it on long literals.
\<close>

lemma startsWith_rec:
  "startsWith s [] = True"
  "startsWith [] (p # ps) = False"
  "startsWith (c # cs) (p # ps) = (c = p \<and> startsWith cs ps)"
  by (auto simp: startsWith_def)

subsubsection \<open>Strings that open no token\<close>








subsubsection \<open>One pass of the loop, segment by segment\<close>




























subsection \<open>Retrieval with no match\<close>

text \<open>
  Claim C9 (empty retrieval). \<open>searchSimilarContext\<close> returns empty pattern and decision
  lists, as a normal result, when no snapshot file exists, and when a snapshot exists
  and the matcher accepts none of its patterns and none of its decisions for the query.
\<close>

theorem searchSimilarContext_empty:
  "(compressedFile st = None
      \<longrightarrow> searchSimilarContext fz st query = Inr \<lparr>rc_patterns = [], rc_decisions = []\<rparr>)
   \<and> (compressedFile st = Some (Stored context)
        \<and> searchPatterns fz [cp_name, cp_description] (6 / 10) (patterns context) query = []
        \<and> searchDecisions fz [ad_title, ad_decision, ad_rationale] (6 / 10) (decisions context) query = []
      \<longrightarrow> searchSimilarContext fz st query = Inr \<lparr>rc_patterns = [], rc_decisions = []\<rparr>)"
  by (simp add: searchSimilarContext_def getCompressedContext_def)

text \<open>
  Scenario C with the stand-in matcher: the query \<open>zzz-no-match-qqq\<close> against an empty
  store and against a populated snapshot.
\<close>

theorem searchSimilarContext_empty_witness:
  "compressedFile emptyStore = None
   \<and> searchSimilarContext substringFuse emptyStore noMatchQuery
       = Inr \<lparr>rc_patterns = [], rc_decisions = []\<rparr>
   \<and> compressedFile customPopulatedStore = Some (Stored sampleContext)
   \<and> length (patterns sampleContext) = 1 \<and> length (decisions sampleContext) = 1
   \<and> searchSimilarContext substringFuse customPopulatedStore noMatchQuery
       = Inr \<lparr>rc_patterns = [], rc_decisions = []\<rparr>"
proof -
  have a: "compressedFile emptyStore = None"
    by (simp add: emptyStore_def)
  have b: "compressedFile customPopulatedStore = Some (Stored sampleContext)"
    by (simp add: customPopulatedStore_def)
  have low: "toLowerCase noMatchQuery = ''zzz-no-match-qqq''"
    by (simp add: noMatchQuery_def toLowerCase_def lowerChar_def)
  have c: "searchPatterns substringFuse [cp_name, cp_description] (6 / 10) (patterns sampleContext)
             noMatchQuery = []"
    unfolding substringFuse_def fuse.simps low
    by (simp add: sampleContext_def) (simp add: toLowerCase_def lowerChar_def startsWith_rec)
  have d: "searchDecisions substringFuse [ad_title, ad_decision, ad_rationale] (6 / 10)
             (decisions sampleContext) noMatchQuery = []"
    unfolding substringFuse_def fuse.simps low
    by (simp add: sampleContext_def) (simp add: toLowerCase_def lowerChar_def startsWith_rec)
  have e: "length (patterns sampleContext) = 1" "length (decisions sampleContext) = 1"
    by (simp_all add: sampleContext_def)
  show ?thesis
    using a b c d e
      searchSimilarContext_empty [of emptyStore substringFuse noMatchQuery]
      searchSimilarContext_empty [of customPopulatedStore substringFuse noMatchQuery sampleContext]
    by simp
qed

end
